theory Spec2Isabelle
  imports Complex_Main
begin

section \<open>Data model (types.ts)\<close>

text \<open>
  The five purchase colours and the six token kinds. \<open>GemType\<close> is \<open>GemColor | 'gold'\<close>;
  a colour is injected into the token kinds by \<open>Colored\<close>.
\<close>

datatype GemColor = Emerald | Diamond | Sapphire | Onyx | Ruby

datatype GemType = Colored GemColor | Gold

text \<open>
  \<open>Record<GemType, number>\<close> and \<open>Record<GemColor, number>\<close>: every key is present, so
  a collection is a total function from keys to integers. Counts are integers because the
  code subtracts them freely (\<open>cost - bonus\<close>, \<open>bank[gem]--\<close>).
\<close>

type_synonym GemCollection = "GemType \<Rightarrow> int"
type_synonym ColoredGemCollection = "GemColor \<Rightarrow> int"

datatype CardTier = Tier1 | Tier2 | Tier3

record DevelopmentCard =
  cardId :: string
  tier :: CardTier
  cost :: ColoredGemCollection
  bonus :: GemColor
  cardPoints :: int

record Noble =
  nobleId :: string
  requirements :: ColoredGemCollection
  noblePoints :: int

record Player =
  playerId :: string
  name :: string
  gems :: GemCollection
  bonuses :: ColoredGemCollection
  reservedCards :: "DevelopmentCard list"
  purchasedCards :: "DevelopmentCard list"
  ownedNobles :: "Noble list"
  prestigePoints :: int

text \<open>
  The market and the decks are objects with the keys \<open>tier1\<close>, \<open>tier2\<close>, \<open>tier3\<close>:
  functions of the tier. A market slot holds a card or \<open>null\<close> (the transition engine
  writes \<open>null\<close> into a vacated slot).
\<close>

type_synonym CardMarket = "CardTier \<Rightarrow> DevelopmentCard option list"
type_synonym CardDecks = "CardTier \<Rightarrow> DevelopmentCard list"

datatype GamePhase = Waiting | Playing | FinalRound | Ended

record GameState =
  gameId :: string
  phase :: GamePhase
  players :: "Player list"
  currentPlayerIndex :: nat
  bank :: GemCollection
  market :: CardMarket
  decks :: CardDecks
  nobles :: "Noble list"
  round :: nat
  endGameTriggeredBy :: "string option"
  winners :: "string list"
  pendingGemDiscard :: "string option"
  pendingNobleSelection :: "string option"

text \<open>
  The tagged union of actions. The gems of the two take actions are typed \<open>GemColor\<close> in
  the source, but the validators test them against \<open>GEM_COLORS\<close> at run time, so the model
  lets them range over all token kinds. \<open>DISCARD_GEMS\<close> carries a
  \<open>Partial<GemCollection>\<close>: the entries that \<open>Object.entries\<close> enumerates, each value a
  number or \<open>undefined\<close>. \<open>UNKNOWN_ACTION\<close> stands for any other tag (the \<open>default\<close>
  branches of the two dispatchers).
\<close>

datatype PlayerAction =
    TAKE_THREE_GEMS string "GemType list"
  | TAKE_TWO_GEMS string GemType
  | RESERVE_CARD string "string option" CardTier
  | PURCHASE_CARD string string
  | SELECT_NOBLE string string
  | DISCARD_GEMS string "(GemType \<times> int option) list"
  | UNKNOWN_ACTION string

datatype ValidationErrorCode =
    NOT_PLAYERS_TURN
  | INSUFFICIENT_GEMS_IN_BANK
  | GEMS_NOT_DISTINCT
  | REQUIRES_FOUR_GEMS_FOR_TWO
  | CANNOT_TAKE_GOLD
  | MAX_RESERVED_CARDS
  | CARD_NOT_AVAILABLE
  | INSUFFICIENT_PAYMENT
  | NOBLE_NOT_ELIGIBLE
  | MUST_DISCARD_GEMS
  | INVALID_DISCARD_AMOUNT
  | GAME_NOT_IN_PROGRESS
  | INVALID_ACTION

text \<open>A validation verdict; the human-readable message is not modelled.\<close>

datatype ValidationResult = Valid | Invalid ValidationErrorCode

text \<open>
  Everything the engine can throw: the \<open>TypeError\<close> of reading a property of
  \<open>undefined\<close>, and the explicit \<open>throw new Error(...)\<close> statements.
\<close>

datatype thrown =
    TypeError
  | InvalidActionError ValidationErrorCode
  | InvalidActionType
  | CannotAffordCard
  | CardNotFound
  | NobleNotFound
  | PlayerCountMismatch nat nat

datatype PlayerCount = Two | Three | Four

fun playerCountNat :: "PlayerCount \<Rightarrow> nat" where
  "playerCountNat Two = 2"
| "playerCountNat Three = 3"
| "playerCountNat Four = 4"

record GameConfig =
  playerCount :: PlayerCount

text \<open>\<open>INITIAL_GEM_COUNTS\<close>: the pair (colored, gold) for each player count.\<close>

fun INITIAL_GEM_COUNTS :: "PlayerCount \<Rightarrow> int \<times> int" where
  "INITIAL_GEM_COUNTS Two = (4, 5)"
| "INITIAL_GEM_COUNTS Three = (5, 5)"
| "INITIAL_GEM_COUNTS Four = (7, 5)"

definition MAX_GEMS :: int where "MAX_GEMS = 10"
definition MAX_RESERVED_CARDS_LIMIT :: nat where "MAX_RESERVED_CARDS_LIMIT = 3"
definition WINNING_POINTS :: int where "WINNING_POINTS = 15"
definition MARKET_SIZE :: nat where "MARKET_SIZE = 4"
definition MIN_GEMS_FOR_TAKE_TWO :: int where "MIN_GEMS_FOR_TAKE_TWO = 4"

definition GEM_COLORS :: "GemColor list" where
  "GEM_COLORS = [Emerald, Diamond, Sapphire, Onyx, Ruby]"

text \<open>\<open>GEM_COLORS.includes(gem)\<close> for a run-time token kind.\<close>

definition isGemColor :: "GemType \<Rightarrow> bool" where
  "isGemColor g = List.member (map Colored GEM_COLORS) g"

section \<open>Lookups (initialization.ts, validators.ts)\<close>

text \<open>\<open>state.players[state.currentPlayerIndex]\<close>: \<open>undefined\<close> out of range.\<close>

definition getCurrentPlayer :: "GameState \<Rightarrow> Player option" where
  "getCurrentPlayer s =
     (if currentPlayerIndex s < length (players s)
      then Some (players s ! currentPlayerIndex s) else None)"

definition getPlayerById :: "GameState \<Rightarrow> string \<Rightarrow> Player option" where
  "getPlayerById s pid = List.find (\<lambda>p. playerId p = pid) (players s)"

text \<open>
  \<open>getCurrentPlayer(state).id === playerId\<close>; reading \<open>.id\<close> of \<open>undefined\<close> throws.
\<close>

definition isPlayersTurn :: "GameState \<Rightarrow> string \<Rightarrow> thrown + bool" where
  "isPlayersTurn s pid =
     (case getCurrentPlayer s of
        None \<Rightarrow> Inl TypeError
      | Some p \<Rightarrow> Inr (playerId p = pid))"

definition isGameInProgress :: "GameState \<Rightarrow> bool" where
  "isGameInProgress s = (phase s = Playing \<or> phase s = FinalRound)"

text \<open>\<open>slots.find(c => c?.id === cardId)\<close> on one market row.\<close>

definition findInRow :: "string \<Rightarrow> DevelopmentCard option list \<Rightarrow> DevelopmentCard option" where
  "findInRow cid row =
     (case List.find (\<lambda>slot. case slot of None \<Rightarrow> False | Some c \<Rightarrow> cardId c = cid) row of
        Some (Some c) \<Rightarrow> Some c
      | _ \<Rightarrow> None)"

definition findCardInMarket :: "GameState \<Rightarrow> string \<Rightarrow> DevelopmentCard option" where
  "findCardInMarket s cid =
     (case findInRow cid (market s Tier1) of
        Some c \<Rightarrow> Some c
      | None \<Rightarrow>
          (case findInRow cid (market s Tier2) of
             Some c \<Rightarrow> Some c
           | None \<Rightarrow> findInRow cid (market s Tier3)))"

text \<open>
  The expression
  \<open>findCardInMarket(state, cardId) ?? player.reservedCards.find(c => c.id === cardId)\<close>,
  which \<open>validatePurchaseCard\<close> and \<open>calculateEffectiveCost\<close> both evaluate.
\<close>

definition findCardForPlayer :: "GameState \<Rightarrow> Player \<Rightarrow> string \<Rightarrow> DevelopmentCard option" where
  "findCardForPlayer s p cid =
     (case findCardInMarket s cid of
        Some c \<Rightarrow> Some c
      | None \<Rightarrow> List.find (\<lambda>c. cardId c = cid) (reservedCards p))"

definition getDeckByTier :: "GameState \<Rightarrow> CardTier \<Rightarrow> DevelopmentCard list" where
  "getDeckByTier s t = decks s t"

section \<open>Cost and affordability (validators.ts)\<close>

definition calculateEffectiveCost ::
  "GameState \<Rightarrow> string \<Rightarrow> string \<Rightarrow> ColoredGemCollection option" where
  "calculateEffectiveCost s pid cid =
     (case getPlayerById s pid of
        None \<Rightarrow> None
      | Some p \<Rightarrow>
          (case findCardForPlayer s p cid of
             None \<Rightarrow> None
           | Some crd \<Rightarrow> Some (\<lambda>color. max 0 (cost crd color - bonuses p color))))"

text \<open>The loop of \<open>canAffordCard\<close> over \<open>GEM_COLORS\<close>, accumulating \<open>goldNeeded\<close>.\<close>

fun goldNeededLoop :: "ColoredGemCollection \<Rightarrow> Player \<Rightarrow> GemColor list \<Rightarrow> int \<Rightarrow> int" where
  "goldNeededLoop eff p [] goldNeeded = goldNeeded"
| "goldNeededLoop eff p (color # rest) goldNeeded =
     (let shortfall = eff color - gems p (Colored color)
      in goldNeededLoop eff p rest
           (if shortfall > 0 then goldNeeded + shortfall else goldNeeded))"

definition canAffordCard :: "GameState \<Rightarrow> string \<Rightarrow> string \<Rightarrow> bool" where
  "canAffordCard s pid cid =
     (case getPlayerById s pid of
        None \<Rightarrow> False
      | Some p \<Rightarrow>
          (case calculateEffectiveCost s pid cid of
             None \<Rightarrow> False
           | Some eff \<Rightarrow> gems p Gold \<ge> goldNeededLoop eff p GEM_COLORS 0))"

text \<open>A noble's requirements against a player's bonuses, colour by colour.\<close>

definition meetsRequirements :: "Player \<Rightarrow> Noble \<Rightarrow> bool" where
  "meetsRequirements p n =
     list_all (\<lambda>color. \<not> bonuses p color < requirements n color) GEM_COLORS"

definition getEligibleNobles :: "GameState \<Rightarrow> string \<Rightarrow> string list" where
  "getEligibleNobles s pid =
     (case getPlayerById s pid of
        None \<Rightarrow> []
      | Some p \<Rightarrow> map nobleId (filter (meetsRequirements p) (nobles s)))"

definition playerTotalGems :: "Player \<Rightarrow> int" where
  "playerTotalGems p =
     gems p (Colored Emerald) + gems p (Colored Diamond) + gems p (Colored Sapphire)
     + gems p (Colored Onyx) + gems p (Colored Ruby) + gems p Gold"

definition getTotalGems :: "GameState \<Rightarrow> string \<Rightarrow> int" where
  "getTotalGems s pid =
     (case getPlayerById s pid of None \<Rightarrow> 0 | Some p \<Rightarrow> playerTotalGems p)"

section \<open>Shortfall query (availability.ts)\<close>

text \<open>First loop of \<open>getCardShortfall\<close>: the per-colour need before gold.\<close>

fun shortfallLoop ::
  "ColoredGemCollection \<Rightarrow> Player \<Rightarrow> GemColor list \<Rightarrow> ColoredGemCollection \<Rightarrow> ColoredGemCollection"
where
  "shortfallLoop eff p [] shortfall = shortfall"
| "shortfallLoop eff p (color # rest) shortfall =
     (let needed = eff color - gems p (Colored color)
      in shortfallLoop eff p rest
           (if needed > 0 then shortfall(color := needed) else shortfall))"

text \<open>Second loop: the available gold is spread over the colours in order.\<close>

fun spreadGold ::
  "GemColor list \<Rightarrow> ColoredGemCollection \<Rightarrow> int \<Rightarrow> ColoredGemCollection"
where
  "spreadGold [] shortfall goldAvailable = shortfall"
| "spreadGold (color # rest) shortfall goldAvailable =
     (if goldAvailable > 0 \<and> shortfall color > 0
      then (let goldUsed = min goldAvailable (shortfall color)
            in spreadGold rest (shortfall(color := shortfall color - goldUsed))
                 (goldAvailable - goldUsed))
      else spreadGold rest shortfall goldAvailable)"

definition getCardShortfall :: "GameState \<Rightarrow> string \<Rightarrow> string \<Rightarrow> ColoredGemCollection" where
  "getCardShortfall s pid cid =
     (case getPlayerById s pid of
        None \<Rightarrow> (\<lambda>_. 0)
      | Some p \<Rightarrow>
          (case calculateEffectiveCost s pid cid of
             None \<Rightarrow> (\<lambda>_. 0)
           | Some eff \<Rightarrow>
               spreadGold GEM_COLORS (shortfallLoop eff p GEM_COLORS (\<lambda>_. 0)) (gems p Gold)))"

text \<open>The sum of the five per-colour entries of a coloured collection.\<close>

definition sumColors :: "ColoredGemCollection \<Rightarrow> int" where
  "sumColors f = f Emerald + f Diamond + f Sapphire + f Onyx + f Ruby"

section \<open>Validators (validators.ts)\<close>

definition validateTakeThreeGems ::
  "GameState \<Rightarrow> string \<Rightarrow> GemType list \<Rightarrow> thrown + ValidationResult" where
  "validateTakeThreeGems s pid gs =
     (case isPlayersTurn s pid of
        Inl e \<Rightarrow> Inl e
      | Inr turn \<Rightarrow>
          Inr (if \<not> turn then Invalid NOT_PLAYERS_TURN
               else if length gs < 1 \<or> length gs > 3 then Invalid INVALID_ACTION
               else if length (remdups gs) \<noteq> length gs then Invalid GEMS_NOT_DISTINCT
               else if list_ex (\<lambda>g. \<not> isGemColor g) gs then Invalid CANNOT_TAKE_GOLD
               else if list_ex (\<lambda>g. bank s g < 1) gs then Invalid INSUFFICIENT_GEMS_IN_BANK
               else Valid))"

definition validateTakeTwoGems ::
  "GameState \<Rightarrow> string \<Rightarrow> GemType \<Rightarrow> thrown + ValidationResult" where
  "validateTakeTwoGems s pid g =
     (case isPlayersTurn s pid of
        Inl e \<Rightarrow> Inl e
      | Inr turn \<Rightarrow>
          Inr (if \<not> turn then Invalid NOT_PLAYERS_TURN
               else if \<not> isGemColor g then Invalid CANNOT_TAKE_GOLD
               else if bank s g < MIN_GEMS_FOR_TAKE_TWO then Invalid REQUIRES_FOUR_GEMS_FOR_TWO
               else Valid))"

definition validateReserveCard ::
  "GameState \<Rightarrow> string \<Rightarrow> string option \<Rightarrow> CardTier \<Rightarrow> thrown + ValidationResult" where
  "validateReserveCard s pid cidOpt t =
     (case isPlayersTurn s pid of
        Inl e \<Rightarrow> Inl e
      | Inr turn \<Rightarrow>
          Inr (if \<not> turn then Invalid NOT_PLAYERS_TURN
               else (case getPlayerById s pid of
                       None \<Rightarrow> Invalid INVALID_ACTION
                     | Some p \<Rightarrow>
                         if length (reservedCards p) \<ge> MAX_RESERVED_CARDS_LIMIT
                         then Invalid MAX_RESERVED_CARDS
                         else (case cidOpt of
                                 Some cid \<Rightarrow>
                                   (case findCardInMarket s cid of
                                      None \<Rightarrow> Invalid CARD_NOT_AVAILABLE
                                    | Some _ \<Rightarrow> Valid)
                               | None \<Rightarrow>
                                   if length (getDeckByTier s t) = 0
                                   then Invalid CARD_NOT_AVAILABLE
                                   else Valid))))"

definition validatePurchaseCard ::
  "GameState \<Rightarrow> string \<Rightarrow> string \<Rightarrow> thrown + ValidationResult" where
  "validatePurchaseCard s pid cid =
     (case isPlayersTurn s pid of
        Inl e \<Rightarrow> Inl e
      | Inr turn \<Rightarrow>
          Inr (if \<not> turn then Invalid NOT_PLAYERS_TURN
               else (case getPlayerById s pid of
                       None \<Rightarrow> Invalid INVALID_ACTION
                     | Some p \<Rightarrow>
                         (case findCardForPlayer s p cid of
                            None \<Rightarrow> Invalid CARD_NOT_AVAILABLE
                          | Some _ \<Rightarrow>
                              if \<not> canAffordCard s pid cid
                              then Invalid INSUFFICIENT_PAYMENT
                              else Valid))))"

definition validateSelectNoble :: "GameState \<Rightarrow> string \<Rightarrow> string \<Rightarrow> ValidationResult" where
  "validateSelectNoble s pid nid =
     (case getPlayerById s pid of
        None \<Rightarrow> Invalid INVALID_ACTION
      | Some p \<Rightarrow>
          (case List.find (\<lambda>n. nobleId n = nid) (nobles s) of
             None \<Rightarrow> Invalid NOBLE_NOT_ELIGIBLE
           | Some noble \<Rightarrow>
               if list_ex (\<lambda>color. bonuses p color < requirements noble color) GEM_COLORS
               then Invalid NOBLE_NOT_ELIGIBLE
               else Valid))"

text \<open>
  The loop of \<open>validateDiscardGems\<close> over the entries of \<open>action.gems\<close>: \<open>Inl\<close> is the
  early return of a verdict, \<open>Inr\<close> the final \<open>totalDiscard\<close>.
\<close>

fun discardTotalLoop ::
  "Player \<Rightarrow> (GemType \<times> int option) list \<Rightarrow> int \<Rightarrow> ValidationResult + int" where
  "discardTotalLoop p [] totalDiscard = Inr totalDiscard"
| "discardTotalLoop p ((g, cnt) # rest) totalDiscard =
     (case cnt of
        None \<Rightarrow> discardTotalLoop p rest totalDiscard
      | Some n \<Rightarrow>
          if n < 0 then discardTotalLoop p rest totalDiscard
          else (let totalDiscard' = totalDiscard + n
                in if gems p g < n then Inl (Invalid INVALID_DISCARD_AMOUNT)
                   else discardTotalLoop p rest totalDiscard'))"

definition validateDiscardGems ::
  "GameState \<Rightarrow> string \<Rightarrow> (GemType \<times> int option) list \<Rightarrow> ValidationResult" where
  "validateDiscardGems s pid entries =
     (case getPlayerById s pid of
        None \<Rightarrow> Invalid INVALID_ACTION
      | Some p \<Rightarrow>
          (let totalGems = getTotalGems s pid
           in if totalGems \<le> MAX_GEMS then Invalid INVALID_ACTION
              else (case discardTotalLoop p entries 0 of
                      Inl verdict \<Rightarrow> verdict
                    | Inr totalDiscard \<Rightarrow>
                        if totalGems - totalDiscard \<noteq> MAX_GEMS
                        then Invalid INVALID_DISCARD_AMOUNT
                        else Valid)))"

fun validateAction :: "GameState \<Rightarrow> PlayerAction \<Rightarrow> thrown + ValidationResult" where
  "validateAction s a =
     (if \<not> isGameInProgress s then Inr (Invalid GAME_NOT_IN_PROGRESS)
      else (case a of
              TAKE_THREE_GEMS pid gs \<Rightarrow> validateTakeThreeGems s pid gs
            | TAKE_TWO_GEMS pid g \<Rightarrow> validateTakeTwoGems s pid g
            | RESERVE_CARD pid cidOpt t \<Rightarrow> validateReserveCard s pid cidOpt t
            | PURCHASE_CARD pid cid \<Rightarrow> validatePurchaseCard s pid cid
            | SELECT_NOBLE pid nid \<Rightarrow> Inr (validateSelectNoble s pid nid)
            | DISCARD_GEMS pid entries \<Rightarrow> Inr (validateDiscardGems s pid entries)
            | UNKNOWN_ACTION _ \<Rightarrow> Inr (Invalid INVALID_ACTION)))"

section \<open>Transition engine (apply)\<close>

text \<open>
  The engine clones the state and mutates the clone. \<open>player\<close> is the object that
  \<open>getPlayerById\<close> returned, the first player with the given id, so a write through it
  is an update of that list element.
\<close>

fun updatePlayer :: "string \<Rightarrow> (Player \<Rightarrow> Player) \<Rightarrow> Player list \<Rightarrow> Player list" where
  "updatePlayer pid f [] = []"
| "updatePlayer pid f (p # ps) =
     (if playerId p = pid then f p # ps else p # updatePlayer pid f ps)"

text \<open>\<open>bank[g] -= n; player.gems[g] += n\<close> and the opposite move.\<close>

definition bankToPlayer :: "string \<Rightarrow> GemType \<Rightarrow> int \<Rightarrow> GameState \<Rightarrow> GameState" where
  "bankToPlayer pid g n s =
     s\<lparr>bank := (bank s)(g := bank s g - n),
       players := updatePlayer pid (\<lambda>p. p\<lparr>gems := (gems p)(g := gems p g + n)\<rparr>) (players s)\<rparr>"

definition playerToBank :: "string \<Rightarrow> GemType \<Rightarrow> int \<Rightarrow> GameState \<Rightarrow> GameState" where
  "playerToBank pid g n s =
     s\<lparr>players := updatePlayer pid (\<lambda>p. p\<lparr>gems := (gems p)(g := gems p g - n)\<rparr>) (players s),
       bank := (bank s)(g := bank s g + n)\<rparr>"

text \<open>\<open>Array.prototype.findIndex\<close>; \<open>None\<close> is the result \<open>-1\<close>.\<close>

fun findIndex :: "('a \<Rightarrow> bool) \<Rightarrow> 'a list \<Rightarrow> nat option" where
  "findIndex P [] = None"
| "findIndex P (x # xs) = (if P x then Some 0 else map_option Suc (findIndex P xs))"

text \<open>\<open>xs.splice(i, 1)\<close>: the list without its element at \<open>i\<close>.\<close>

definition removeAt :: "nat \<Rightarrow> 'a list \<Rightarrow> 'a list" where
  "removeAt i xs = take i xs @ drop (Suc i) xs"

subsection \<open>Game end\<close>

text \<open>
  \<open>Math.max(...xs)\<close> and \<open>Math.min(...xs)\<close> are folds from the first element; the
  engine never takes them of an empty list with a result that matters (see
  \<open>determineWinners\<close>).
\<close>

definition determineWinners :: "GameState \<Rightarrow> string list" where
  "determineWinners s =
     (case players s of
        [] \<Rightarrow> []
      | p # ps \<Rightarrow>
          (let maxPoints = fold max (map prestigePoints ps) (prestigePoints p);
               candidates = filter (\<lambda>q. prestigePoints q = maxPoints) (players s)
           in (case candidates of
                 [] \<Rightarrow> []
               | [c] \<Rightarrow> [playerId c]
               | c # cs \<Rightarrow>
                   (let minCards = fold min (map (\<lambda>q. length (purchasedCards q)) cs)
                                     (length (purchasedCards c))
                    in map playerId
                         (filter (\<lambda>q. length (purchasedCards q) = minCards) candidates)))))"

definition checkGameEndTrigger :: "GameState \<Rightarrow> GameState" where
  "checkGameEndTrigger s =
     (if phase s = FinalRound \<or> phase s = Ended then s
      else (case List.find (\<lambda>p. prestigePoints p \<ge> WINNING_POINTS) (players s) of
              Some p \<Rightarrow> s\<lparr>endGameTriggeredBy := Some (playerId p), phase := FinalRound\<rparr>
            | None \<Rightarrow> s))"

definition checkGameEnd :: "GameState \<Rightarrow> GameState" where
  "checkGameEnd s =
     (if phase s \<noteq> FinalRound then s
      else (let s1 = s\<lparr>phase := Ended\<rparr> in s1\<lparr>winners := determineWinners s1\<rparr>))"

text \<open>
  \<open>advanceTurn\<close>. With an empty player list JavaScript computes \<open>(i + 1) % 0 = NaN\<close>,
  which is not \<open>0\<close>; the model's \<open>(i + 1) mod 0 = i + 1\<close> takes the same branch, and the
  stored index is meaningful only for a non-empty player list.
\<close>

definition advanceTurn :: "GameState \<Rightarrow> GameState" where
  "advanceTurn s =
     (if phase s = Ended then s
      else (let s1 = s\<lparr>currentPlayerIndex := (currentPlayerIndex s + 1) mod length (players s)\<rparr>
            in if currentPlayerIndex s1 = 0
               then (let s2 = s1\<lparr>round := round s1 + 1\<rparr>
                     in if phase s2 = FinalRound then checkGameEnd s2 else s2)
               else s1))"

definition checkGameEndAndAdvance :: "GameState \<Rightarrow> GameState" where
  "checkGameEndAndAdvance s = advanceTurn (checkGameEndTrigger s)"

subsection \<open>End-of-turn pipeline\<close>

text \<open>
  The noble moves from the pool to the player: \<open>state.nobles.splice(i, 1)\<close>,
  \<open>player.nobles.push(noble)\<close>, \<open>player.prestigePoints += noble.prestigePoints\<close>.
\<close>

definition awardNoble :: "string \<Rightarrow> nat \<Rightarrow> GameState \<Rightarrow> GameState" where
  "awardNoble pid i s =
     (let noble = nobles s ! i
      in s\<lparr>nobles := removeAt i (nobles s),
           players := updatePlayer pid
             (\<lambda>p. p\<lparr>ownedNobles := ownedNobles p @ [noble],
                    prestigePoints := prestigePoints p + noblePoints noble\<rparr>) (players s)\<rparr>)"

text \<open>
  \<open>checkNobleAndAdvance\<close>. The id of the single eligible noble comes from
  \<open>state.nobles\<close>, so \<open>findIndex\<close> finds it and the player exists; the two \<open>TypeError\<close>
  branches below are never taken (lemma \<open>checkNobleAndAdvance_returns\<close>).
\<close>

definition checkNobleAndAdvance :: "GameState \<Rightarrow> string \<Rightarrow> thrown + GameState" where
  "checkNobleAndAdvance s pid =
     (case getEligibleNobles s pid of
        [] \<Rightarrow> Inr (checkGameEndAndAdvance s)
      | [nid] \<Rightarrow>
          (case findIndex (\<lambda>n. nobleId n = nid) (nobles s) of
             None \<Rightarrow> Inl TypeError
           | Some i \<Rightarrow>
               (case getPlayerById s pid of
                  None \<Rightarrow> Inl TypeError
                | Some _ \<Rightarrow> Inr (checkGameEndAndAdvance (awardNoble pid i s))))
      | _ # _ # _ \<Rightarrow> Inr (s\<lparr>pendingNobleSelection := Some pid\<rparr>))"

definition finishTurn :: "GameState \<Rightarrow> string \<Rightarrow> thrown + GameState" where
  "finishTurn s pid =
     (case getPlayerById s pid of
        None \<Rightarrow> Inl TypeError
      | Some p \<Rightarrow>
          if playerTotalGems p > MAX_GEMS
          then Inr (s\<lparr>pendingGemDiscard := Some pid\<rparr>)
          else checkNobleAndAdvance s pid)"

subsection \<open>Payment\<close>

fun paymentLoop ::
  "ColoredGemCollection \<Rightarrow> Player \<Rightarrow> GemColor list \<Rightarrow> ColoredGemCollection \<times> int
     \<Rightarrow> ColoredGemCollection \<times> int" where
  "paymentLoop eff p [] acc = acc"
| "paymentLoop eff p (color # rest) (payment, goldNeeded) =
     (let required = eff color; available = gems p (Colored color)
      in if required \<le> available
         then paymentLoop eff p rest (payment(color := required), goldNeeded)
         else paymentLoop eff p rest
                (payment(color := available), goldNeeded + (required - available)))"

definition calculatePayment ::
  "GameState \<Rightarrow> string \<Rightarrow> string \<Rightarrow> (ColoredGemCollection \<times> int) option" where
  "calculatePayment s pid cid =
     (case getPlayerById s pid of
        None \<Rightarrow> None
      | Some p \<Rightarrow>
          (case calculateEffectiveCost s pid cid of
             None \<Rightarrow> None
           | Some eff \<Rightarrow>
               (case paymentLoop eff p GEM_COLORS (\<lambda>_. 0, 0) of
                  (payment, goldNeeded) \<Rightarrow>
                    if goldNeeded > gems p Gold then None else Some (payment, goldNeeded))))"

subsection \<open>Market helpers\<close>

fun removeCardFromTiers ::
  "CardTier list \<Rightarrow> GameState \<Rightarrow> string \<Rightarrow> DevelopmentCard option \<times> GameState" where
  "removeCardFromTiers [] s cid = (None, s)"
| "removeCardFromTiers (t # ts) s cid =
     (case findIndex (\<lambda>slot. case slot of None \<Rightarrow> False | Some c \<Rightarrow> cardId c = cid)
             (market s t) of
        Some i \<Rightarrow> (market s t ! i, s\<lparr>market := (market s)(t := (market s t)[i := None])\<rparr>)
      | None \<Rightarrow> removeCardFromTiers ts s cid)"

definition removeCardFromMarket ::
  "GameState \<Rightarrow> string \<Rightarrow> DevelopmentCard option \<times> GameState" where
  "removeCardFromMarket s cid = removeCardFromTiers [Tier1, Tier2, Tier3] s cid"

definition refillMarketSlot :: "GameState \<Rightarrow> CardTier \<Rightarrow> GameState" where
  "refillMarketSlot s t =
     (case findIndex (\<lambda>c. c = None) (market s t) of
        None \<Rightarrow> s
      | Some emptyIndex \<Rightarrow>
          (case decks s t of
             [] \<Rightarrow> s
           | c # rest \<Rightarrow>
               s\<lparr>decks := (decks s)(t := rest),
                 market := (market s)(t := (market s t)[emptyIndex := Some c])\<rparr>))"

subsection \<open>Action handlers\<close>

text \<open>
  Each main-action handler applies its economic effect to the clone and then returns
  \<open>finishTurn(newState, action.playerId)\<close>. The effect is a definition of its own
  (\<open>effect...\<close>), so that the pipeline can be stated on the state it receives.
\<close>

fun takeGemsLoop :: "string \<Rightarrow> GemType list \<Rightarrow> GameState \<Rightarrow> thrown + GameState" where
  "takeGemsLoop pid [] s = Inr s"
| "takeGemsLoop pid (g # rest) s =
     (case getPlayerById s pid of
        None \<Rightarrow> Inl TypeError
      | Some _ \<Rightarrow> takeGemsLoop pid rest (bankToPlayer pid g 1 s))"

definition effectTakeThreeGems :: "GameState \<Rightarrow> string \<Rightarrow> GemType list \<Rightarrow> thrown + GameState" where
  "effectTakeThreeGems s pid gs = takeGemsLoop pid gs s"

definition applyTakeThreeGems :: "GameState \<Rightarrow> string \<Rightarrow> GemType list \<Rightarrow> thrown + GameState" where
  "applyTakeThreeGems s pid gs =
     (case effectTakeThreeGems s pid gs of
        Inl e \<Rightarrow> Inl e
      | Inr newState \<Rightarrow> finishTurn newState pid)"

definition effectTakeTwoGems :: "GameState \<Rightarrow> string \<Rightarrow> GemType \<Rightarrow> thrown + GameState" where
  "effectTakeTwoGems s pid g =
     (case getPlayerById s pid of
        None \<Rightarrow> Inl TypeError
      | Some _ \<Rightarrow> Inr (bankToPlayer pid g 2 s))"

definition applyTakeTwoGems :: "GameState \<Rightarrow> string \<Rightarrow> GemType \<Rightarrow> thrown + GameState" where
  "applyTakeTwoGems s pid g =
     (case effectTakeTwoGems s pid g of
        Inl e \<Rightarrow> Inl e
      | Inr newState \<Rightarrow> finishTurn newState pid)"

text \<open>The card a reservation obtains, with the state after the market or deck change.\<close>

definition takeCardToReserve ::
  "GameState \<Rightarrow> string option \<Rightarrow> CardTier \<Rightarrow> DevelopmentCard option \<times> GameState" where
  "takeCardToReserve s cidOpt t =
     (case cidOpt of
        Some cid \<Rightarrow>
          (case removeCardFromMarket s cid of
             (Some c, s1) \<Rightarrow> (Some c, refillMarketSlot s1 (tier c))
           | (None, s1) \<Rightarrow> (None, s1))
      | None \<Rightarrow>
          (case decks s t of
             [] \<Rightarrow> (None, s)
           | c # rest \<Rightarrow> (Some c, s\<lparr>decks := (decks s)(t := rest)\<rparr>)))"

definition pushReserved :: "string \<Rightarrow> DevelopmentCard option \<Rightarrow> GameState \<Rightarrow> thrown + GameState" where
  "pushReserved pid crd s =
     (case crd of
        None \<Rightarrow> Inr s
      | Some c \<Rightarrow>
          (case getPlayerById s pid of
             None \<Rightarrow> Inl TypeError
           | Some _ \<Rightarrow>
               Inr (s\<lparr>players := updatePlayer pid
                      (\<lambda>p. p\<lparr>reservedCards := reservedCards p @ [c]\<rparr>) (players s)\<rparr>)))"

definition giveGoldIfAvailable :: "string \<Rightarrow> GameState \<Rightarrow> thrown + GameState" where
  "giveGoldIfAvailable pid s =
     (if bank s Gold > 0
      then (case getPlayerById s pid of
              None \<Rightarrow> Inl TypeError
            | Some _ \<Rightarrow> Inr (bankToPlayer pid Gold 1 s))
      else Inr s)"

definition effectReserveCard ::
  "GameState \<Rightarrow> string \<Rightarrow> string option \<Rightarrow> CardTier \<Rightarrow> thrown + GameState" where
  "effectReserveCard s pid cidOpt t =
     (case takeCardToReserve s cidOpt t of
        (crd, s1) \<Rightarrow>
          (case pushReserved pid crd s1 of
             Inl e \<Rightarrow> Inl e
           | Inr s2 \<Rightarrow> giveGoldIfAvailable pid s2))"

definition applyReserveCard ::
  "GameState \<Rightarrow> string \<Rightarrow> string option \<Rightarrow> CardTier \<Rightarrow> thrown + GameState" where
  "applyReserveCard s pid cidOpt t =
     (case effectReserveCard s pid cidOpt t of
        Inl e \<Rightarrow> Inl e
      | Inr newState \<Rightarrow> finishTurn newState pid)"

text \<open>
  Finding and removing the purchased card: the market first, then the player's reserved
  list. The result is the card, whether it came from the reserved list, and the state.
\<close>

definition takeCardToPurchase ::
  "GameState \<Rightarrow> string \<Rightarrow> string \<Rightarrow> thrown + (DevelopmentCard \<times> bool \<times> GameState)" where
  "takeCardToPurchase s pid cid =
     (case removeCardFromMarket s cid of
        (Some c, s1) \<Rightarrow> Inr (c, False, s1)
      | (None, s1) \<Rightarrow>
          (case getPlayerById s1 pid of
             None \<Rightarrow> Inl TypeError
           | Some p \<Rightarrow>
               (case findIndex (\<lambda>c. cardId c = cid) (reservedCards p) of
                  None \<Rightarrow> Inl CardNotFound
                | Some reservedIndex \<Rightarrow>
                    Inr (reservedCards p ! reservedIndex, True,
                         s1\<lparr>players := updatePlayer pid
                              (\<lambda>q. q\<lparr>reservedCards := removeAt reservedIndex (reservedCards q)\<rparr>)
                              (players s1)\<rparr>))))"

fun payLoop :: "string \<Rightarrow> ColoredGemCollection \<Rightarrow> GemColor list \<Rightarrow> GameState \<Rightarrow> GameState" where
  "payLoop pid payment [] s = s"
| "payLoop pid payment (color # rest) s =
     payLoop pid payment rest (playerToBank pid (Colored color) (payment color) s)"

definition effectPurchaseCard :: "GameState \<Rightarrow> string \<Rightarrow> string \<Rightarrow> thrown + GameState" where
  "effectPurchaseCard s pid cid =
     (case calculatePayment s pid cid of
        None \<Rightarrow> Inl CannotAffordCard
      | Some (payment, gold) \<Rightarrow>
          (case takeCardToPurchase s pid cid of
             Inl e \<Rightarrow> Inl e
           | Inr (c, fromReserved, s1) \<Rightarrow>
               (let s2 = payLoop pid payment GEM_COLORS s1;
                    s3 = playerToBank pid Gold gold s2;
                    s4 = s3\<lparr>players := updatePlayer pid
                            (\<lambda>p. p\<lparr>purchasedCards := purchasedCards p @ [c],
                                   bonuses := (bonuses p)(bonus c := bonuses p (bonus c) + 1),
                                   prestigePoints := prestigePoints p + cardPoints c\<rparr>)
                            (players s3)\<rparr>
                in Inr (if \<not> fromReserved then refillMarketSlot s4 (tier c) else s4))))"

definition applyPurchaseCard :: "GameState \<Rightarrow> string \<Rightarrow> string \<Rightarrow> thrown + GameState" where
  "applyPurchaseCard s pid cid =
     (case effectPurchaseCard s pid cid of
        Inl e \<Rightarrow> Inl e
      | Inr newState \<Rightarrow> finishTurn newState pid)"

definition applySelectNoble :: "GameState \<Rightarrow> string \<Rightarrow> string \<Rightarrow> thrown + GameState" where
  "applySelectNoble s pid nid =
     (case findIndex (\<lambda>n. nobleId n = nid) (nobles s) of
        None \<Rightarrow> Inl NobleNotFound
      | Some nobleIndex \<Rightarrow>
          (case getPlayerById s pid of
             None \<Rightarrow> Inl TypeError
           | Some _ \<Rightarrow>
               Inr (checkGameEndAndAdvance
                      ((awardNoble pid nobleIndex s)\<lparr>pendingNobleSelection := None\<rparr>))))"

fun discardLoop ::
  "string \<Rightarrow> (GemType \<times> int option) list \<Rightarrow> GameState \<Rightarrow> thrown + GameState" where
  "discardLoop pid [] s = Inr s"
| "discardLoop pid ((g, cnt) # rest) s =
     (case cnt of
        None \<Rightarrow> discardLoop pid rest s
      | Some n \<Rightarrow>
          if n \<le> 0 then discardLoop pid rest s
          else (case getPlayerById s pid of
                  None \<Rightarrow> Inl TypeError
                | Some _ \<Rightarrow> discardLoop pid rest (playerToBank pid g n s)))"

definition effectDiscardGems ::
  "GameState \<Rightarrow> string \<Rightarrow> (GemType \<times> int option) list \<Rightarrow> thrown + GameState" where
  "effectDiscardGems s pid entries =
     (case discardLoop pid entries s of
        Inl e \<Rightarrow> Inl e
      | Inr s1 \<Rightarrow> Inr (s1\<lparr>pendingGemDiscard := None\<rparr>))"

definition applyDiscardGems ::
  "GameState \<Rightarrow> string \<Rightarrow> (GemType \<times> int option) list \<Rightarrow> thrown + GameState" where
  "applyDiscardGems s pid entries =
     (case effectDiscardGems s pid entries of
        Inl e \<Rightarrow> Inl e
      | Inr newState \<Rightarrow> checkNobleAndAdvance newState pid)"

fun applyActionUnsafe :: "GameState \<Rightarrow> PlayerAction \<Rightarrow> thrown + GameState" where
  "applyActionUnsafe s (TAKE_THREE_GEMS pid gs) = applyTakeThreeGems s pid gs"
| "applyActionUnsafe s (TAKE_TWO_GEMS pid g) = applyTakeTwoGems s pid g"
| "applyActionUnsafe s (RESERVE_CARD pid cidOpt t) = applyReserveCard s pid cidOpt t"
| "applyActionUnsafe s (PURCHASE_CARD pid cid) = applyPurchaseCard s pid cid"
| "applyActionUnsafe s (SELECT_NOBLE pid nid) = applySelectNoble s pid nid"
| "applyActionUnsafe s (DISCARD_GEMS pid entries) = applyDiscardGems s pid entries"
| "applyActionUnsafe s (UNKNOWN_ACTION _) = Inl InvalidActionType"

definition applyAction :: "GameState \<Rightarrow> PlayerAction \<Rightarrow> thrown + GameState" where
  "applyAction s a =
     (case validateAction s a of
        Inl e \<Rightarrow> Inl e
      | Inr (Invalid code) \<Rightarrow> Inl (InvalidActionError code)
      | Inr Valid \<Rightarrow> applyActionUnsafe s a)"

text \<open>
  The economic effect of an action that runs the end-of-turn pipeline afterwards: the
  state that \<open>finishTurn\<close> (main actions) or \<open>checkNobleAndAdvance\<close> (discard)
  receives. The acting player of an action, and the main actions.
\<close>

fun actionEffect :: "GameState \<Rightarrow> PlayerAction \<Rightarrow> (thrown + GameState) option" where
  "actionEffect s (TAKE_THREE_GEMS pid gs) = Some (effectTakeThreeGems s pid gs)"
| "actionEffect s (TAKE_TWO_GEMS pid g) = Some (effectTakeTwoGems s pid g)"
| "actionEffect s (RESERVE_CARD pid cidOpt t) = Some (effectReserveCard s pid cidOpt t)"
| "actionEffect s (PURCHASE_CARD pid cid) = Some (effectPurchaseCard s pid cid)"
| "actionEffect s (DISCARD_GEMS pid entries) = Some (effectDiscardGems s pid entries)"
| "actionEffect s _ = None"

fun actionPlayerId :: "PlayerAction \<Rightarrow> string" where
  "actionPlayerId (TAKE_THREE_GEMS pid _) = pid"
| "actionPlayerId (TAKE_TWO_GEMS pid _) = pid"
| "actionPlayerId (RESERVE_CARD pid _ _) = pid"
| "actionPlayerId (PURCHASE_CARD pid _) = pid"
| "actionPlayerId (SELECT_NOBLE pid _) = pid"
| "actionPlayerId (DISCARD_GEMS pid _) = pid"
| "actionPlayerId (UNKNOWN_ACTION pid) = pid"

fun isMainAction :: "PlayerAction \<Rightarrow> bool" where
  "isMainAction (TAKE_THREE_GEMS _ _) = True"
| "isMainAction (TAKE_TWO_GEMS _ _) = True"
| "isMainAction (RESERVE_CARD _ _ _) = True"
| "isMainAction (PURCHASE_CARD _ _) = True"
| "isMainAction _ = False"

section \<open>Initialization\<close>

definition createEmptyGemCollection :: GemCollection where
  "createEmptyGemCollection = (\<lambda>_. 0)"

definition createEmptyColoredGemCollection :: ColoredGemCollection where
  "createEmptyColoredGemCollection = (\<lambda>_. 0)"

definition createInitialBank :: "PlayerCount \<Rightarrow> GemCollection" where
  "createInitialBank pc =
     (case INITIAL_GEM_COUNTS pc of
        (colored, gold) \<Rightarrow> (\<lambda>g. case g of Colored _ \<Rightarrow> colored | Gold \<Rightarrow> gold))"

definition createPlayer :: "string \<Rightarrow> string \<Rightarrow> Player" where
  "createPlayer pid nm =
     \<lparr>playerId = pid, name = nm, gems = createEmptyGemCollection,
      bonuses = createEmptyColoredGemCollection, reservedCards = [], purchasedCards = [],
      ownedNobles = [], prestigePoints = 0\<rparr>"

text \<open>
  The random source \<open>randomFn\<close> is a stateful thunk; the model passes the sequence of
  its results and the number of calls made so far. Its contract (that of \<open>Math.random\<close>)
  is a result in \<open>[0, 1)\<close>, which makes \<open>j \<le> i\<close> in the Fisher-Yates loop; outside that
  contract the step leaves the list as it is here.
\<close>

fun shuffleLoop :: "(nat \<Rightarrow> real) \<Rightarrow> nat \<Rightarrow> 'a list \<Rightarrow> nat \<Rightarrow> 'a list \<times> nat" where
  "shuffleLoop randomFn 0 result calls = (result, calls)"
| "shuffleLoop randomFn (Suc i') result calls =
     (let i = Suc i';
          j = nat \<lfloor>randomFn calls * real (i + 1)\<rfloor>
      in shuffleLoop randomFn i'
           (if j \<le> i \<and> i < length result
            then result[i := result ! j, j := result ! i] else result)
           (Suc calls))"

definition shuffleArray :: "'a list \<Rightarrow> (nat \<Rightarrow> real) \<Rightarrow> nat \<Rightarrow> 'a list \<times> nat" where
  "shuffleArray array randomFn calls = shuffleLoop randomFn (length array - 1) array calls"

text \<open>
  The static tables of \<open>data/cards.ts\<close> (\<open>getCardsByTier\<close>, \<open>getAllNobles\<close>) are a
  parameter of the model.
\<close>

record Catalog =
  getCardsByTier :: "CardTier \<Rightarrow> DevelopmentCard list"
  getAllNobles :: "Noble list"

text \<open>
  \<open>createGame\<close>. \<open>generateGameId()\<close> reads the clock and \<open>Math.random\<close>; its result is the
  parameter \<open>gid\<close>. The order of the shuffles is the source's: players, tier 1, tier 2,
  tier 3, nobles.
\<close>

definition createGame ::
  "Catalog \<Rightarrow> string \<Rightarrow> GameConfig \<Rightarrow> (string \<times> string) list \<Rightarrow> (nat \<Rightarrow> real)
     \<Rightarrow> thrown + GameState" where
  "createGame catalog gid config playerInfos randomFn =
     (if length playerInfos \<noteq> playerCountNat (playerCount config)
      then Inl (PlayerCountMismatch (playerCountNat (playerCount config)) (length playerInfos))
      else
        (case shuffleArray (map (\<lambda>(pid, nm). createPlayer pid nm) playerInfos) randomFn 0 of
           (orderedPlayers, k1) \<Rightarrow>
        (case shuffleArray (getCardsByTier catalog Tier1) randomFn k1 of (deck1, k2) \<Rightarrow>
        (case shuffleArray (getCardsByTier catalog Tier2) randomFn k2 of (deck2, k3) \<Rightarrow>
        (case shuffleArray (getCardsByTier catalog Tier3) randomFn k3 of (deck3, k4) \<Rightarrow>
        (case shuffleArray (getAllNobles catalog) randomFn k4 of (shuffledNobles, k5) \<Rightarrow>
           (let shuffledDecks = (\<lambda>t. case t of Tier1 \<Rightarrow> deck1 | Tier2 \<Rightarrow> deck2 | Tier3 \<Rightarrow> deck3)
            in Inr \<lparr>gameId = gid,
                    phase = Playing,
                    players = orderedPlayers,
                    currentPlayerIndex = 0,
                    bank = createInitialBank (playerCount config),
                    market = (\<lambda>t. map Some (take MARKET_SIZE (shuffledDecks t))),
                    decks = (\<lambda>t. drop MARKET_SIZE (shuffledDecks t)),
                    nobles = take (playerCountNat (playerCount config) + 1) shuffledNobles,
                    round = 1,
                    endGameTriggeredBy = None,
                    winners = [],
                    pendingGemDiscard = None,
                    pendingNobleSelection = None\<rparr>)))))))"

section \<open>Token totals\<close>

text \<open>
  The quantity of the conservation property: for one gem type, the bank's count plus
  the counts held by all players.
\<close>

definition gemTotal :: "GameState \<Rightarrow> GemType \<Rightarrow> int" where
  "gemTotal s g = bank s g + (\<Sum>p\<leftarrow>players s. gems p g)"

section \<open>Frame relations\<close>

text \<open>
  Relations between a state and a later one, used to state what a step leaves alone.
  \<open>sameTurn\<close>: the players' identities and nobles, the turn position, the phase, the
  noble pool and the noble-selection flag are unchanged. \<open>onlyCards\<close>: nothing but the
  market and the decks changed. \<open>conserving\<close>: \<open>sameTurn\<close>, and the token totals are
  unchanged.
\<close>

definition sameTurn :: "GameState \<Rightarrow> GameState \<Rightarrow> bool" where
  "sameTurn s m \<longleftrightarrow>
     map playerId (players m) = map playerId (players s)
     \<and> map ownedNobles (players m) = map ownedNobles (players s)
     \<and> currentPlayerIndex m = currentPlayerIndex s
     \<and> round m = round s
     \<and> phase m = phase s
     \<and> nobles m = nobles s
     \<and> pendingNobleSelection m = pendingNobleSelection s"

definition onlyCards :: "GameState \<Rightarrow> GameState \<Rightarrow> bool" where
  "onlyCards s m \<longleftrightarrow> m = s\<lparr>market := market m, decks := decks m\<rparr>"

definition conserving :: "GameState \<Rightarrow> GameState \<Rightarrow> bool" where
  "conserving s m \<longleftrightarrow> sameTurn s m \<and> (\<forall>g. gemTotal m g = gemTotal s g)"

section \<open>Example states\<close>

text \<open>
  A two-player position used to run the definitions (4 tokens of each colour and 5
  gold in play): Alice holds one emerald and one gold and two emerald bonuses; the
  market shows one card costing three emeralds.
\<close>

definition exCard :: DevelopmentCard where
  "exCard = \<lparr>cardId = ''c1'', tier = Tier1, cost = (\<lambda>_. 0)(Emerald := 3),
             bonus = Emerald, cardPoints = 0\<rparr>"

definition exAlice :: Player where
  "exAlice = \<lparr>playerId = ''p1'', name = ''Alice'',
              gems = (\<lambda>_. 0)(Colored Emerald := 1, Gold := 1),
              bonuses = (\<lambda>_. 0)(Emerald := 2),
              reservedCards = [], purchasedCards = [], ownedNobles = [],
              prestigePoints = 0\<rparr>"

definition exBob :: Player where
  "exBob = createPlayer ''p2'' ''Bob''"

definition exNoble1 :: Noble where
  "exNoble1 = \<lparr>nobleId = ''n1'', requirements = (\<lambda>_. 0)(Emerald := 3), noblePoints = 3\<rparr>"

definition exNoble2 :: Noble where
  "exNoble2 = \<lparr>nobleId = ''n2'', requirements = (\<lambda>_. 0)(Emerald := 3, Ruby := 0),
               noblePoints = 3\<rparr>"

definition exState :: GameState where
  "exState = \<lparr>gameId = ''g'', phase = Playing, players = [exAlice, exBob],
              currentPlayerIndex = 0,
              bank = (\<lambda>g. case g of Colored _ \<Rightarrow> 4 | Gold \<Rightarrow> 4)(Colored Emerald := 3),
              market = (\<lambda>_. [])(Tier1 := [Some exCard, None, None, None]),
              decks = (\<lambda>_. []),
              nobles = [exNoble1],
              round = 1, endGameTriggeredBy = None, winners = [],
              pendingGemDiscard = None, pendingNobleSelection = None\<rparr>"

text \<open>
  The end of a final round with three players: the first has 15 points from two cards,
  the other two have 15 points from one card each; it is the last player's turn.
\<close>

definition exFinalPlayer :: "string \<Rightarrow> nat \<Rightarrow> Player" where
  "exFinalPlayer pid n =
     (createPlayer pid pid)\<lparr>purchasedCards := replicate n exCard, prestigePoints := 15\<rparr>"

definition exFinal :: GameState where
  "exFinal = exState\<lparr>phase := FinalRound,
                    players := [exFinalPlayer ''a'' 2, exFinalPlayer ''b'' 1, exFinalPlayer ''c'' 1],
                    currentPlayerIndex := 2,
                    endGameTriggeredBy := Some ''a''\<rparr>"

text \<open>
  A position one purchase away from two nobles: Alice holds ten gems and two emerald
  bonuses, the card on the market gives a third, and both nobles ask for three.
  \<open>exAfterPurchase\<close> is the state the engine returns for her purchase \<open>exBuy\<close>,
  \<open>exAfterTake\<close> the state it returns when she then takes three gems (\<open>exTake\<close>).
\<close>

definition exRich :: GameState where
  "exRich = exState\<lparr>players :=
                [exAlice\<lparr>gems := (\<lambda>_. 0)(Colored Emerald := 1, Colored Diamond := 3,
                                          Colored Sapphire := 3, Colored Onyx := 3)\<rparr>,
                 exBob],
              bank := (\<lambda>g. case g of Colored _ \<Rightarrow> 1 | Gold \<Rightarrow> 5)
                        (Colored Emerald := 3, Colored Ruby := 4),
              nobles := [exNoble1, exNoble2]\<rparr>"

definition exBuy :: PlayerAction where
  "exBuy = PURCHASE_CARD ''p1'' ''c1''"

definition exTake :: PlayerAction where
  "exTake = TAKE_THREE_GEMS ''p1'' [Colored Diamond, Colored Sapphire, Colored Onyx]"

definition exAfterPurchase :: GameState where
  "exAfterPurchase = projr (applyAction exRich exBuy)"

definition exAfterTake :: GameState where
  "exAfterTake = projr (applyAction exAfterPurchase exTake)"

definition exTakeEffect2 :: GameState where
  "exTakeEffect2 = projr (the (actionEffect exAfterPurchase exTake))"

text \<open>
  Alice takes three gems at once instead: \<open>exTakeEffect\<close> is the state after the
  economic effect, \<open>exOver\<close> the state the engine returns.
\<close>

definition exTakeEffect :: GameState where
  "exTakeEffect = projr (the (actionEffect exRich exTake))"

definition exTakePlayer :: Player where
  "exTakePlayer = the (getPlayerById exTakeEffect ''p1'')"

definition exOver :: GameState where
  "exOver = projr (applyAction exRich exTake)"

text \<open>The state after the economic effect of Alice's purchase in \<open>exState\<close>.\<close>

definition exBuyEffect :: GameState where
  "exBuyEffect = projr (the (actionEffect exState exBuy))"

definition exBuyPlayer :: Player where
  "exBuyPlayer = the (getPlayerById exBuyEffect ''p1'')"

text \<open>
  Alice's turn, a noble selection pending for Alice, and Bob with three emerald
  bonuses too.
\<close>

definition exBob3 :: Player where
  "exBob3 = exBob\<lparr>bonuses := (\<lambda>_. 0)(Emerald := 3)\<rparr>"

definition exCrowd :: GameState where
  "exCrowd = exState\<lparr>players := [exAlice\<lparr>bonuses := (\<lambda>_. 0)(Emerald := 3)\<rparr>, exBob3],
                    nobles := [exNoble1, exNoble2],
                    pendingNobleSelection := Some ''p1''\<rparr>"

definition exCatalog :: Catalog where
  "exCatalog = \<lparr>getCardsByTier = (\<lambda>_. [exCard]), getAllNobles = [exNoble1, exNoble2]\<rparr>"

section \<open>Affordability\<close>

lemma goldNeededLoop_sum:
  "goldNeededLoop eff p cs acc =
     acc + (\<Sum>color\<leftarrow>cs. max 0 (eff color - gems p (Colored color)))"
  by (induction cs arbitrary: acc) (auto simp: Let_def max_def)

lemma shortfallLoop_notin:
  "c \<notin> set cs \<Longrightarrow> shortfallLoop eff p cs sf c = sf c"
  by (induction cs arbitrary: sf) (auto simp: Let_def)

lemma shortfallLoop_in:
  "distinct cs \<Longrightarrow> c \<in> set cs \<Longrightarrow>
   shortfallLoop eff p cs sf c =
     (if eff c - gems p (Colored c) > 0 then eff c - gems p (Colored c) else sf c)"
  by (induction cs arbitrary: sf) (auto simp: Let_def shortfallLoop_notin)

lemma spreadGold_notin:
  "c \<notin> set cs \<Longrightarrow> spreadGold cs sf g c = sf c"
  by (induction cs arbitrary: sf g) (auto simp: Let_def)

text \<open>
  Spreading a non-negative amount of gold over non-negative shortfalls leaves, in
  total, what the gold could not cover.
\<close>

lemma spreadGold_sum:
  "distinct cs \<Longrightarrow> 0 \<le> g \<Longrightarrow> (\<And>c. c \<in> set cs \<Longrightarrow> 0 \<le> sf c) \<Longrightarrow>
   (\<Sum>c\<leftarrow>cs. spreadGold cs sf g c) = max 0 ((\<Sum>c\<leftarrow>cs. sf c) - g)"
proof (induction cs arbitrary: sf g)
  case Nil
  then show ?case by simp
next
  case (Cons a cs)
  have nonneg: "0 \<le> (\<Sum>c\<leftarrow>cs. sf c)"
    using Cons.prems(3) by (auto intro!: sum_list_nonneg)
  have a0: "0 \<le> sf a" using Cons.prems(3) by simp
  have notin: "a \<notin> set cs" using Cons.prems(1) by simp
  have same: "\<And>v. (\<Sum>c\<leftarrow>cs. (sf(a := v)) c) = (\<Sum>c\<leftarrow>cs. sf c)"
    using notin by (intro arg_cong[where f=sum_list] map_cong) auto
  show ?case
  proof (cases "g > 0 \<and> sf a > 0")
    case True
    let ?u = "min g (sf a)"
    let ?sf = "sf(a := sf a - ?u)"
    have IH: "(\<Sum>c\<leftarrow>cs. spreadGold cs ?sf (g - ?u) c)
                = max 0 ((\<Sum>c\<leftarrow>cs. ?sf c) - (g - ?u))"
      using Cons.prems by (intro Cons.IH) auto
    have head: "spreadGold cs ?sf (g - ?u) a = sf a - ?u"
      using notin by (simp add: spreadGold_notin)
    show ?thesis
      using True IH head same[of "sf a - ?u"] nonneg a0
      by (simp add: Let_def) (auto simp: min_def max_def)
  next
    case False
    have IH: "(\<Sum>c\<leftarrow>cs. spreadGold cs sf g c) = max 0 ((\<Sum>c\<leftarrow>cs. sf c) - g)"
      using Cons.prems by (intro Cons.IH) auto
    have head: "spreadGold cs sf g a = sf a"
      using notin by (simp add: spreadGold_notin)
    show ?thesis
      using False IH head nonneg a0 Cons.prems(2)
      by (auto simp: max_def)
  qed
qed

lemma sumColors_sum_list: "sumColors f = (\<Sum>c\<leftarrow>GEM_COLORS. f c)"
  by (simp add: sumColors_def GEM_COLORS_def)

lemma GEM_COLORS_all: "distinct GEM_COLORS" "c \<in> set GEM_COLORS"
  by (cases c; simp add: GEM_COLORS_def)+

lemma shortfallLoop_all:
  "shortfallLoop eff p GEM_COLORS (\<lambda>_. 0) c = max 0 (eff c - gems p (Colored c))"
  by (simp add: shortfallLoop_in GEM_COLORS_all max_def)

text \<open>
  The card that the lookup returns has the requested id and lies in the market or in
  the player's reserved list.
\<close>

lemma find_SomeD: "List.find P xs = Some x \<Longrightarrow> P x \<and> x \<in> set xs"
  by (induction xs) (auto split: if_splits)

lemma findInRow_Some:
  "findInRow cid row = Some c \<Longrightarrow> cardId c = cid \<and> Some c \<in> set row"
  unfolding findInRow_def
  by (auto split: option.splits dest!: find_SomeD)

lemma findCardForPlayer_Some:
  assumes "findCardForPlayer s p cid = Some c"
  shows "cardId c = cid"
    and "(\<exists>t. Some c \<in> set (market s t)) \<or> c \<in> set (reservedCards p)"
  using assms unfolding findCardForPlayer_def findCardInMarket_def
  by (auto split: option.splits dest: findInRow_Some find_SomeD)

text \<open>
  C3. For a player of the state (the one \<open>playerId\<close> denotes) and a card found in the
  market or in that player's reserved list (the one \<open>cardId\<close> denotes),
  \<open>canAffordCard\<close> is true exactly when the player's gold is at least the sum, over the
  five colours, of \<open>max(0, max(0, cost - bonus) - gems)\<close>: the bonus is subtracted from
  the cost before gems or gold are considered.
\<close>

theorem canAffordCard_iff_gold_covers:
  assumes "getPlayerById s pid = Some p"
    and "findCardForPlayer s p cid = Some c"
  shows "canAffordCard s pid cid \<longleftrightarrow>
           gems p Gold \<ge>
             (\<Sum>color\<leftarrow>GEM_COLORS.
                max 0 (max 0 (cost c color - bonuses p color) - gems p (Colored color)))"
  using assms
  by (simp add: canAffordCard_def calculateEffectiveCost_def goldNeededLoop_sum)

lemmas ex_defs = exState_def exAlice_def exBob_def exCard_def exNoble1_def exNoble2_def
  createPlayer_def createEmptyGemCollection_def createEmptyColoredGemCollection_def

lemma ex_lookup_alice: "getPlayerById exState ''p1'' = Some exAlice"
  by (simp add: getPlayerById_def exState_def exAlice_def)

lemma ex_lookup_card: "findCardForPlayer exState exAlice ''c1'' = Some exCard"
  by (simp add: findCardForPlayer_def findCardInMarket_def findInRow_def exState_def exCard_def)

theorem canAffordCard_iff_gold_covers_witness:
  "getPlayerById exState ''p1'' = Some exAlice
   \<and> findCardForPlayer exState exAlice ''c1'' = Some exCard
   \<and> canAffordCard exState ''p1'' ''c1''"
  using canAffordCard_iff_gold_covers [OF ex_lookup_alice ex_lookup_card]
    ex_lookup_alice ex_lookup_card
  by (simp add: GEM_COLORS_def exAlice_def exCard_def)

text \<open>
  With both lookups successful and a gold count that is not negative, affordability
  and a zero shortfall coincide.
\<close>

lemma afford_shortfall_found:
  assumes "getPlayerById s pid = Some p"
    and "findCardForPlayer s p cid = Some c"
    and "0 \<le> gems p Gold"
  shows "canAffordCard s pid cid \<longleftrightarrow> sumColors (getCardShortfall s pid cid) = 0"
proof -
  define eff where "eff = (\<lambda>color. max 0 (cost c color - bonuses p color))"
  define need where "need = (\<lambda>color. max 0 (eff color - gems p (Colored color)))"
  have eff: "calculateEffectiveCost s pid cid = Some eff"
    using assms(1,2) by (simp add: calculateEffectiveCost_def eff_def)
  have first: "shortfallLoop eff p GEM_COLORS (\<lambda>_. 0) = need"
    by (rule ext) (simp add: shortfallLoop_all need_def)
  have total: "sumColors (getCardShortfall s pid cid)
                 = max 0 ((\<Sum>color\<leftarrow>GEM_COLORS. need color) - gems p Gold)"
    using assms(1,3) eff first
    by (simp add: getCardShortfall_def sumColors_sum_list spreadGold_sum GEM_COLORS_all need_def)
  have afford: "canAffordCard s pid cid
                  \<longleftrightarrow> (\<Sum>color\<leftarrow>GEM_COLORS. need color) \<le> gems p Gold"
    using assms(1) eff by (simp add: canAffordCard_def goldNeededLoop_sum need_def)
  show ?thesis unfolding total afford by (simp add: max_def)
qed

text \<open>
  With a failed lookup (no player of that id, or no card of that id in the market or in
  the player's reserved list) both functions take their guard: \<open>false\<close>, and zero in
  every colour.
\<close>

lemma afford_shortfall_unknown:
  assumes "getPlayerById s pid = None
           \<or> (getPlayerById s pid = Some p \<and> findCardForPlayer s p cid = None)"
  shows "\<not> canAffordCard s pid cid \<and> (\<forall>color. getCardShortfall s pid cid color = 0)"
  using assms
  by (auto simp: canAffordCard_def getCardShortfall_def calculateEffectiveCost_def)

text \<open>
  C4 as stated fails where a lookup fails: with a card id that is nowhere in the state,
  or a player id that no player has, \<open>canAffordCard\<close> is false while
  \<open>getCardShortfall\<close> is zero in every colour.
\<close>

theorem afford_shortfall_duality_counterexample:
  "\<not> (canAffordCard exState ''p1'' ''missing''
        \<longleftrightarrow> sumColors (getCardShortfall exState ''p1'' ''missing'') = 0)
   \<and> \<not> (canAffordCard exState ''nobody'' ''c1''
        \<longleftrightarrow> sumColors (getCardShortfall exState ''nobody'' ''c1'') = 0)"
  by (simp add: canAffordCard_def getCardShortfall_def calculateEffectiveCost_def
      findCardForPlayer_def findCardInMarket_def findInRow_def getPlayerById_def
      sumColors_def ex_defs)

text \<open>
  C4, amended. When \<open>playerId\<close> denotes a player of the state, \<open>cardId\<close> denotes a card
  in the market or in that player's reserved list, and the player's gold count is not
  negative, \<open>canAffordCard\<close> is true exactly when the five entries of
  \<open>getCardShortfall\<close> sum to zero. When \<open>playerId\<close> denotes no player, or \<open>cardId\<close>
  denotes no card in the market or in that player's reserved list, \<open>canAffordCard\<close> is
  false and \<open>getCardShortfall\<close> is zero in every colour.
\<close>

theorem afford_shortfall_duality:
  "(getPlayerById s pid = Some p \<and> findCardForPlayer s p cid = Some c \<and> 0 \<le> gems p Gold
      \<longrightarrow> (canAffordCard s pid cid \<longleftrightarrow> sumColors (getCardShortfall s pid cid) = 0))
   \<and> (getPlayerById s pid = None
        \<or> (getPlayerById s pid = Some p \<and> findCardForPlayer s p cid = None)
      \<longrightarrow> \<not> canAffordCard s pid cid \<and> (\<forall>color. getCardShortfall s pid cid color = 0))"
  using afford_shortfall_found[of s pid p cid c] afford_shortfall_unknown[of s pid p cid]
  by blast

theorem afford_shortfall_duality_witness:
  "getPlayerById exState ''p1'' = Some exAlice
   \<and> findCardForPlayer exState exAlice ''c1'' = Some exCard
   \<and> 0 \<le> gems exAlice Gold
   \<and> canAffordCard exState ''p1'' ''c1''
   \<and> sumColors (getCardShortfall exState ''p1'' ''c1'') = 0
   \<and> findCardForPlayer exState exAlice ''missing'' = None
   \<and> \<not> canAffordCard exState ''p1'' ''missing''
   \<and> (\<forall>color. getCardShortfall exState ''p1'' ''missing'' color = 0)
   \<and> getPlayerById exState ''nobody'' = None
   \<and> \<not> canAffordCard exState ''nobody'' ''c1''
   \<and> (\<forall>color. getCardShortfall exState ''nobody'' ''c1'' color = 0)"
proof -
  have g: "0 \<le> gems exAlice Gold" by (simp add: exAlice_def)
  have a: "canAffordCard exState ''p1'' ''c1''"
    using ex_lookup_alice ex_lookup_card
    by (simp add: canAffordCard_def calculateEffectiveCost_def GEM_COLORS_def
        exAlice_def exCard_def)
  have m: "findCardForPlayer exState exAlice ''missing'' = None"
    by (simp add: findCardForPlayer_def findCardInMarket_def findInRow_def
        exState_def exAlice_def exCard_def)
  have n: "getPlayerById exState ''nobody'' = None"
    by (simp add: getPlayerById_def ex_defs)
  show ?thesis
    using afford_shortfall_duality [of exState "''p1''" exAlice "''c1''" exCard]
      afford_shortfall_duality [of exState "''p1''" exAlice "''missing''" exCard]
      afford_shortfall_duality [of exState "''nobody''" exAlice "''c1''" exCard]
      a g m n ex_lookup_alice ex_lookup_card
    by simp
qed

section \<open>Winners\<close>

lemma fold_max_Max: "fold max xs (x::int) = Max (set (x # xs))"
  by (simp only: Max.set_eq_fold)

lemma fold_min_Min: "fold min xs (x::nat) = Min (set (x # xs))"
  by (simp only: Min.set_eq_fold)

lemma max_prestige_attained:
  assumes "players s \<noteq> []"
  shows "filter (\<lambda>q. prestigePoints q = Max (prestigePoints ` set (players s))) (players s) \<noteq> []"
proof -
  have "Max (prestigePoints ` set (players s)) \<in> prestigePoints ` set (players s)"
    using assms by (intro Max_in) auto
  then show ?thesis by (auto simp: filter_empty_conv)
qed

text \<open>
  The two filters of \<open>determineWinners\<close> in closed form; the shortcut for a single
  candidate returns the same list.
\<close>

lemma determineWinners_filters:
  assumes "players s \<noteq> []"
    and "cands = filter (\<lambda>q. prestigePoints q = Max (prestigePoints ` set (players s))) (players s)"
  shows "determineWinners s =
           map playerId
             (filter (\<lambda>q. length (purchasedCards q)
                        = Min ((\<lambda>q. length (purchasedCards q)) ` set cands)) cands)"
proof -
  define M where "M = Max (prestigePoints ` set (players s))"
  define m where "m = Min ((\<lambda>q. length (purchasedCards q)) ` set cands)"
  obtain p ps where pps: "players s = p # ps" using assms(1) by (cases "players s") auto
  have maxP: "fold max (map prestigePoints ps) (prestigePoints p) = M"
    unfolding M_def pps by (simp only: fold_max_Max) simp
  have ne: "cands \<noteq> []"
    using max_prestige_attained[OF assms(1)] assms(2) by simp
  have cands_pps: "filter (\<lambda>q. prestigePoints q = M) (p # ps) = cands"
    by (simp only: assms(2) M_def pps)
  have unfolded: "determineWinners s =
      (case cands of [] \<Rightarrow> [] | [c] \<Rightarrow> [playerId c]
       | c # cs \<Rightarrow>
          map playerId
            (filter (\<lambda>q. length (purchasedCards q)
                       = fold min (map (\<lambda>q. length (purchasedCards q)) cs)
                           (length (purchasedCards c))) cands))"
    by (simp only: determineWinners_def pps list.case Let_def maxP cands_pps)
  have "determineWinners s = map playerId (filter (\<lambda>q. length (purchasedCards q) = m) cands)"
  proof (cases cands)
    case Nil
    with ne show ?thesis by simp
  next
    case (Cons c cs)
    have minC: "fold min (map (\<lambda>q. length (purchasedCards q)) cs) (length (purchasedCards c)) = m"
      unfolding m_def Cons by (simp only: fold_min_Min) simp
    show ?thesis
    proof (cases cs)
      case Nil
      have "m = length (purchasedCards c)" by (simp add: m_def Cons Nil)
      then show ?thesis
        unfolding unfolded by (simp add: Cons Nil)
    next
      case (Cons d ds)
      show ?thesis
        unfolding unfolded
        by (simp only: \<open>cands = c # cs\<close> Cons list.case minC[unfolded Cons])
    qed
  qed
  then show ?thesis by (simp add: m_def)
qed

lemma determineWinners_nonempty:
  assumes "players s \<noteq> []"
  shows "determineWinners s \<noteq> []"
proof -
  define cands where
    "cands = filter (\<lambda>q. prestigePoints q = Max (prestigePoints ` set (players s))) (players s)"
  have ne: "cands \<noteq> []"
    using max_prestige_attained[OF assms] by (simp add: cands_def)
  then have "Min ((\<lambda>q. length (purchasedCards q)) ` set cands)
               \<in> (\<lambda>q. length (purchasedCards q)) ` set cands"
    by (intro Min_in) auto
  then have "filter (\<lambda>q. length (purchasedCards q)
                        = Min ((\<lambda>q. length (purchasedCards q)) ` set cands)) cands \<noteq> []"
    by (auto simp: filter_empty_conv)
  then show ?thesis
    by (simp add: determineWinners_filters[OF assms cands_def])
qed

lemma determineWinners_players:
  "players s' = players s \<Longrightarrow> determineWinners s' = determineWinners s"
  by (simp add: determineWinners_def cong: list.case_cong)

lemma determineWinners_frame:
  "determineWinners (s\<lparr>phase := ph\<rparr>) = determineWinners s"
  "determineWinners (s\<lparr>round := r\<rparr>) = determineWinners s"
  "determineWinners (s\<lparr>currentPlayerIndex := i\<rparr>) = determineWinners s"
  by (rule determineWinners_players, simp)+

text \<open>
  C8. For a non-empty player list \<open>determineWinners\<close> returns, in player order, exactly
  the ids of the players whose prestige is the maximum and whose number of purchased
  cards is the minimum among the players with maximum prestige; every player still tied
  after both criteria is in the result.
\<close>

theorem determineWinners_spec:
  assumes "players s \<noteq> []"
  shows "determineWinners s =
           map playerId
             (filter (\<lambda>p. prestigePoints p = Max (prestigePoints ` set (players s))
                        \<and> length (purchasedCards p)
                            = Min ((\<lambda>q. length (purchasedCards q))
                                   ` {q \<in> set (players s).
                                        prestigePoints q = Max (prestigePoints ` set (players s))}))
                (players s))"
proof -
  define cands where
    "cands = filter (\<lambda>q. prestigePoints q = Max (prestigePoints ` set (players s))) (players s)"
  have setc: "set cands
                = {q \<in> set (players s). prestigePoints q = Max (prestigePoints ` set (players s))}"
    by (auto simp: cands_def)
  show ?thesis
    unfolding determineWinners_filters[OF assms cands_def] setc[symmetric]
    by (simp add: cands_def conj_commute)
qed

lemma exFinal_winners: "determineWinners exFinal = [''b'', ''c'']"
  by (simp add: determineWinners_def exFinal_def exFinalPlayer_def createPlayer_def)

theorem determineWinners_spec_witness:
  "players exFinal \<noteq> [] \<and> determineWinners exFinal = [''b'', ''c'']
   \<and> determineWinners exFinal =
       map playerId
         (filter (\<lambda>p. prestigePoints p = Max (prestigePoints ` set (players exFinal))
                    \<and> length (purchasedCards p)
                        = Min ((\<lambda>q. length (purchasedCards q))
                               ` {q \<in> set (players exFinal).
                                    prestigePoints q = Max (prestigePoints ` set (players exFinal))}))
            (players exFinal))"
proof -
  have ne: "players exFinal \<noteq> []" by (simp add: exFinal_def)
  show ?thesis
    using determineWinners_spec [OF ne] ne exFinal_winners by simp
qed

section \<open>Turn advance\<close>

text \<open>
  C7. When \<open>advanceTurn\<close> advances the turn (the game has not ended; the player list is
  not empty), the new index is \<open>(previous + 1) mod playerCount\<close>; the round grows by
  one exactly when the new index is 0; and when the index wraps to 0 in phase
  \<open>final_round\<close>, the returned state has phase \<open>ended\<close> and its winners are those that
  \<open>determineWinners\<close> computes, a non-empty list.
\<close>

theorem advanceTurn_spec:
  assumes "phase s \<noteq> Ended" and "players s \<noteq> []"
  shows "currentPlayerIndex (advanceTurn s)
           = (currentPlayerIndex s + 1) mod length (players s)
         \<and> round (advanceTurn s)
           = (if currentPlayerIndex (advanceTurn s) = 0 then round s + 1 else round s)
         \<and> (currentPlayerIndex (advanceTurn s) = 0 \<and> phase s = FinalRound
              \<longrightarrow> phase (advanceTurn s) = Ended
                  \<and> winners (advanceTurn s) = determineWinners s
                  \<and> winners (advanceTurn s) \<noteq> [])"
  using assms determineWinners_nonempty[OF assms(2)]
  by (simp add: advanceTurn_def checkGameEnd_def Let_def determineWinners_frame)

theorem advanceTurn_spec_witness:
  "phase exFinal \<noteq> Ended \<and> players exFinal \<noteq> []
   \<and> currentPlayerIndex (advanceTurn exFinal) = 0
   \<and> round (advanceTurn exFinal) = 2
   \<and> phase (advanceTurn exFinal) = Ended
   \<and> winners (advanceTurn exFinal) = [''b'', ''c'']"
proof -
  have a: "phase exFinal \<noteq> Ended" and b: "players exFinal \<noteq> []"
    by (simp_all add: exFinal_def)
  have c: "currentPlayerIndex exFinal = 2" "length (players exFinal) = 3"
    "round exFinal = 1" "phase exFinal = FinalRound"
    by (simp_all add: exFinal_def exState_def)
  show ?thesis
    using advanceTurn_spec [OF a b] a b c exFinal_winners by simp
qed

section \<open>Game creation\<close>

text \<open>
  C9. \<open>createGame\<close> throws exactly when the length of the player list differs from
  \<open>config.playerCount\<close>. Otherwise, for each player count 2, 3, 4, it returns a state
  whose bank holds 4, 5, 7 of each coloured gem and 5 gold, with phase \<open>playing\<close>,
  round 1, current player index 0 and neither pending flag set.
\<close>

theorem createGame_spec:
  "((\<exists>e. createGame catalog gid config playerInfos randomFn = Inl e)
      \<longleftrightarrow> length playerInfos \<noteq> playerCountNat (playerCount config))
   \<and> (length playerInfos = playerCountNat (playerCount config) \<longrightarrow>
        (\<exists>s. createGame catalog gid config playerInfos randomFn = Inr s
           \<and> (\<forall>color. bank s (Colored color)
                 = (case playerCount config of Two \<Rightarrow> 4 | Three \<Rightarrow> 5 | Four \<Rightarrow> 7))
           \<and> bank s Gold = 5
           \<and> phase s = Playing \<and> round s = 1 \<and> currentPlayerIndex s = 0
           \<and> pendingGemDiscard s = None \<and> pendingNobleSelection s = None))"
  by (cases "playerCount config")
     (auto simp: createGame_def createInitialBank_def Let_def split: prod.splits)

theorem createGame_spec_witness:
  "length [(''p1'', ''Alice''), (''p2'', ''Bob'')] = playerCountNat (playerCount \<lparr>playerCount = Two\<rparr>)
   \<and> (\<exists>s. createGame exCatalog ''g'' \<lparr>playerCount = Two\<rparr>
             [(''p1'', ''Alice''), (''p2'', ''Bob'')] (\<lambda>_. 0) = Inr s
          \<and> (\<forall>color. bank s (Colored color) = 4) \<and> bank s Gold = 5
          \<and> phase s = Playing \<and> round s = 1 \<and> currentPlayerIndex s = 0
          \<and> pendingGemDiscard s = None \<and> pendingNobleSelection s = None)
   \<and> createGame exCatalog ''g'' \<lparr>playerCount = Two\<rparr> [(''p1'', ''Alice'')] (\<lambda>_. 0)
       = Inl (PlayerCountMismatch 2 1)"
proof -
  have thrown: "createGame exCatalog ''g'' \<lparr>playerCount = Two\<rparr> [(''p1'', ''Alice'')] (\<lambda>_. 0)
                  = Inl (PlayerCountMismatch 2 1)"
    by (simp add: createGame_def)
  show ?thesis
    using createGame_spec [of exCatalog "''g''" "\<lparr>playerCount = Two\<rparr>"
        "[(''p1'', ''Alice''), (''p2'', ''Bob'')]" "\<lambda>_. 0"] thrown
    by simp
qed

section \<open>Updating one player\<close>

lemma length_updatePlayer: "length (updatePlayer pid f ps) = length ps"
  by (induction ps) auto

lemma map_updatePlayer_same:
  "(\<And>p. h (f p) = h p) \<Longrightarrow> map h (updatePlayer pid f ps) = map h ps"
  by (induction ps) auto

lemma find_updatePlayer:
  "(\<And>p. playerId (f p) = playerId p) \<Longrightarrow>
   List.find (\<lambda>p. playerId p = q) (updatePlayer pid f ps)
     = (if q = pid then map_option f (List.find (\<lambda>p. playerId p = pid) ps)
        else List.find (\<lambda>p. playerId p = q) ps)"
  by (induction ps) auto

lemma sum_updatePlayer:
  fixes h :: "Player \<Rightarrow> int"
  shows "List.find (\<lambda>p. playerId p = pid) ps = Some p \<Longrightarrow>
         (\<Sum>q\<leftarrow>updatePlayer pid f ps. h q) = (\<Sum>q\<leftarrow>ps. h q) - h p + h (f p)"
  by (induction ps) (auto split: if_splits)

lemma find_id_None_iff:
  "List.find (\<lambda>p. playerId p = pid) ps = None \<longleftrightarrow> pid \<notin> set (map playerId ps)"
  by (induction ps) auto

lemma getPlayerById_ids:
  "map playerId (players m) = map playerId (players s) \<Longrightarrow>
   (getPlayerById m pid = None) = (getPlayerById s pid = None)"
  by (simp add: getPlayerById_def find_id_None_iff)

section \<open>What the steps leave unchanged\<close>

text \<open>
  Each economic effect is a sequence of moves between the bank and the acting player,
  writes to that player's card lists, and market or deck changes. Every such step is
  \<open>conserving\<close>; the end-of-turn pipeline touches neither the bank nor any gems.
\<close>

lemma sameTurn_refl: "sameTurn s s"
  by (simp add: sameTurn_def)

lemma sameTurn_trans: "sameTurn s m \<Longrightarrow> sameTurn m n \<Longrightarrow> sameTurn s n"
  by (simp add: sameTurn_def)

lemma sameTurn_bankToPlayer: "sameTurn s (bankToPlayer pid g n s)"
  by (simp add: sameTurn_def bankToPlayer_def map_updatePlayer_same)

lemma sameTurn_playerToBank: "sameTurn s (playerToBank pid g n s)"
  by (simp add: sameTurn_def playerToBank_def map_updatePlayer_same)

lemma gemTotal_bankToPlayer:
  "getPlayerById s pid = Some p \<Longrightarrow> gemTotal (bankToPlayer pid g n s) g' = gemTotal s g'"
  by (simp add: gemTotal_def bankToPlayer_def getPlayerById_def sum_updatePlayer)

lemma gemTotal_playerToBank:
  "getPlayerById s pid = Some p \<Longrightarrow> gemTotal (playerToBank pid g n s) g' = gemTotal s g'"
  by (simp add: gemTotal_def playerToBank_def getPlayerById_def sum_updatePlayer)

lemma gemTotal_cong:
  "bank m = bank s \<Longrightarrow> map gems (players m) = map gems (players s) \<Longrightarrow>
   gemTotal m g = gemTotal s g"
proof -
  assume b: "bank m = bank s" and g: "map gems (players m) = map gems (players s)"
  have "map (\<lambda>p. gems p g) (players m) = map (\<lambda>f. f g) (map gems (players m))"
    by simp
  also have "\<dots> = map (\<lambda>f. f g) (map gems (players s))" by (simp only: g)
  also have "\<dots> = map (\<lambda>p. gems p g) (players s)" by simp
  finally show ?thesis by (simp add: gemTotal_def b)
qed

lemma takeGemsLoop_frame:
  "takeGemsLoop pid gs s = Inr m \<Longrightarrow> sameTurn s m \<and> (\<forall>g. gemTotal m g = gemTotal s g)"
proof (induction gs arbitrary: s)
  case Nil
  then show ?case by (simp add: sameTurn_refl)
next
  case (Cons g gs)
  then obtain p where p: "getPlayerById s pid = Some p"
    and rest: "takeGemsLoop pid gs (bankToPlayer pid g 1 s) = Inr m"
    by (auto split: option.splits)
  from Cons.IH[OF rest] show ?case
    using sameTurn_trans[OF sameTurn_bankToPlayer] gemTotal_bankToPlayer[OF p]
    by auto
qed


lemma onlyCards_refl: "onlyCards s s"
  by (simp add: onlyCards_def)

lemma onlyCards_fields:
  assumes "onlyCards s m"
  shows "players m = players s" "bank m = bank s" "currentPlayerIndex m = currentPlayerIndex s"
    "round m = round s" "phase m = phase s" "nobles m = nobles s"
    "pendingNobleSelection m = pendingNobleSelection s"
    "pendingGemDiscard m = pendingGemDiscard s"
proof -
  have m: "m = s\<lparr>market := market m, decks := decks m\<rparr>"
    using assms by (simp add: onlyCards_def)
  show "players m = players s" by (subst m) simp
  show "bank m = bank s" by (subst m) simp
  show "currentPlayerIndex m = currentPlayerIndex s" by (subst m) simp
  show "round m = round s" by (subst m) simp
  show "phase m = phase s" by (subst m) simp
  show "nobles m = nobles s" by (subst m) simp
  show "pendingNobleSelection m = pendingNobleSelection s" by (subst m) simp
  show "pendingGemDiscard m = pendingGemDiscard s" by (subst m) simp
qed

lemma onlyCards_trans: "onlyCards s m \<Longrightarrow> onlyCards m n \<Longrightarrow> onlyCards s n"
  unfolding onlyCards_def
  by (metis (no_types, lifting) GameState.surjective GameState.update_convs(6,7))

lemma onlyCards_market: "onlyCards s (s\<lparr>market := x\<rparr>)"
  by (simp add: onlyCards_def)

lemma onlyCards_decks: "onlyCards s (s\<lparr>decks := x\<rparr>)"
  by (simp add: onlyCards_def)

lemma onlyCards_decks_market: "onlyCards s (s\<lparr>decks := x, market := y\<rparr>)"
  by (simp add: onlyCards_def)

lemma onlyCards_sameTurn: "onlyCards s m \<Longrightarrow> sameTurn s m"
  by (simp add: sameTurn_def onlyCards_fields)

lemma onlyCards_gemTotal: "onlyCards s m \<Longrightarrow> gemTotal m g = gemTotal s g"
  by (simp add: gemTotal_def onlyCards_fields)


lemma removeCardFromTiers_onlyCards:
  "removeCardFromTiers ts s cid = (c, s1) \<Longrightarrow> onlyCards s s1"
  by (induction ts) (auto split: option.splits simp: onlyCards_refl onlyCards_market)

lemma removeCardFromMarket_onlyCards:
  "removeCardFromMarket s cid = (c, s1) \<Longrightarrow> onlyCards s s1"
  unfolding removeCardFromMarket_def by (rule removeCardFromTiers_onlyCards)

lemma refillMarketSlot_onlyCards: "onlyCards s (refillMarketSlot s t)"
  by (auto simp: refillMarketSlot_def onlyCards_refl onlyCards_decks_market
      split: option.splits list.splits)

lemma takeCardToReserve_onlyCards:
  "takeCardToReserve s cidOpt t = (crd, s1) \<Longrightarrow> onlyCards s s1"
  unfolding takeCardToReserve_def
  by (auto split: option.splits prod.splits list.splits
      simp: onlyCards_refl onlyCards_decks
      dest!: removeCardFromMarket_onlyCards
      intro: onlyCards_trans[OF _ refillMarketSlot_onlyCards])


lemma conserving_refl: "conserving s s"
  by (simp add: conserving_def sameTurn_refl)

lemma conserving_trans: "conserving s m \<Longrightarrow> conserving m n \<Longrightarrow> conserving s n"
  by (auto simp: conserving_def intro: sameTurn_trans)

lemma conserving_onlyCards: "onlyCards s m \<Longrightarrow> conserving s m"
  by (simp add: conserving_def onlyCards_sameTurn onlyCards_gemTotal)

lemma conserving_found:
  "conserving s m \<Longrightarrow> (getPlayerById m pid = None) = (getPlayerById s pid = None)"
  using getPlayerById_ids[of m s pid] by (simp add: conserving_def sameTurn_def)

lemma conserving_bankToPlayer:
  "getPlayerById s pid = Some p \<Longrightarrow> conserving s (bankToPlayer pid g n s)"
  by (simp add: conserving_def sameTurn_bankToPlayer gemTotal_bankToPlayer)

lemma conserving_playerToBank:
  "getPlayerById s pid = Some p \<Longrightarrow> conserving s (playerToBank pid g n s)"
  by (simp add: conserving_def sameTurn_playerToBank gemTotal_playerToBank)

text \<open>A write to the player that touches neither id, gems nor nobles.\<close>

lemma conserving_players_upd:
  assumes "\<And>p. playerId (f p) = playerId p" "\<And>p. gems (f p) = gems p"
    "\<And>p. ownedNobles (f p) = ownedNobles p"
  shows "conserving s (s\<lparr>players := updatePlayer pid f (players s)\<rparr>)"
proof -
  have "map gems (updatePlayer pid f (players s)) = map gems (players s)"
    using assms(2) by (rule map_updatePlayer_same)
  then have "gemTotal (s\<lparr>players := updatePlayer pid f (players s)\<rparr>) g = gemTotal s g" for g
    by (intro gemTotal_cong) simp_all
  then show ?thesis
    using assms(1,3) by (simp add: conserving_def sameTurn_def map_updatePlayer_same)
qed

lemma takeGemsLoop_conserving:
  "takeGemsLoop pid gs s = Inr m \<Longrightarrow> conserving s m"
  by (simp add: conserving_def takeGemsLoop_frame)

lemma effectTakeTwoGems_conserving:
  "effectTakeTwoGems s pid g = Inr m \<Longrightarrow> conserving s m"
  by (auto simp: effectTakeTwoGems_def conserving_bankToPlayer split: option.splits)

lemma pushReserved_conserving:
  "pushReserved pid crd s = Inr m \<Longrightarrow> conserving s m"
  by (auto simp: pushReserved_def conserving_refl conserving_players_upd split: option.splits)

lemma giveGoldIfAvailable_conserving:
  "giveGoldIfAvailable pid s = Inr m \<Longrightarrow> conserving s m"
  by (auto simp: giveGoldIfAvailable_def conserving_refl conserving_bankToPlayer
      split: option.splits if_splits)

lemma effectReserveCard_conserving:
  assumes "effectReserveCard s pid cidOpt t = Inr m"
  shows "conserving s m"
proof -
  obtain crd s1 where a: "takeCardToReserve s cidOpt t = (crd, s1)"
    by (cases "takeCardToReserve s cidOpt t")
  with assms obtain s2 where b: "pushReserved pid crd s1 = Inr s2"
    and c: "giveGoldIfAvailable pid s2 = Inr m"
    by (auto simp: effectReserveCard_def split: sum.splits)
  show ?thesis
    using conserving_onlyCards[OF takeCardToReserve_onlyCards[OF a]]
      pushReserved_conserving[OF b] giveGoldIfAvailable_conserving[OF c]
    by (blast intro: conserving_trans)
qed

lemma payLoop_conserving:
  "getPlayerById s pid = Some p \<Longrightarrow> conserving s (payLoop pid payment cs s)"
proof (induction cs arbitrary: s p)
  case Nil
  then show ?case by (simp add: conserving_refl)
next
  case (Cons c cs)
  let ?s1 = "playerToBank pid (Colored c) (payment c) s"
  have step: "conserving s ?s1" using Cons.prems by (rule conserving_playerToBank)
  then obtain q where "getPlayerById ?s1 pid = Some q"
    using conserving_found[OF step, of pid] Cons.prems by auto
  from Cons.IH[OF this] step show ?case
    by (auto intro: conserving_trans)
qed

lemma calculatePayment_found:
  "calculatePayment s pid cid = Some pay \<Longrightarrow> \<exists>p. getPlayerById s pid = Some p"
  by (auto simp: calculatePayment_def split: option.splits)

lemma takeCardToPurchase_conserving:
  assumes "takeCardToPurchase s pid cid = Inr (c, fromReserved, s1)"
  shows "conserving s s1"
proof -
  obtain co s0 where rm: "removeCardFromMarket s cid = (co, s0)"
    by (cases "removeCardFromMarket s cid")
  have c0: "conserving s s0"
    using removeCardFromMarket_onlyCards[OF rm] by (rule conserving_onlyCards)
  show ?thesis
  proof (cases co)
    case (Some c')
    then have "s1 = s0" using assms rm by (simp add: takeCardToPurchase_def)
    then show ?thesis using c0 by simp
  next
    case None
    then obtain f where "s1 = s0\<lparr>players := updatePlayer pid f (players s0)\<rparr>"
      and "\<And>p. playerId (f p) = playerId p" "\<And>p. gems (f p) = gems p"
      "\<And>p. ownedNobles (f p) = ownedNobles p"
      using assms rm
      by (fastforce simp: takeCardToPurchase_def split: option.splits)
    then have "conserving s0 s1" by (simp add: conserving_players_upd)
    with c0 show ?thesis by (rule conserving_trans)
  qed
qed

lemma effectPurchaseCard_conserving:
  assumes "effectPurchaseCard s pid cid = Inr m"
  shows "conserving s m"
proof -
  from assms obtain payment gold c fromReserved s1
    where pay: "calculatePayment s pid cid = Some (payment, gold)"
      and take: "takeCardToPurchase s pid cid = Inr (c, fromReserved, s1)"
    by (auto simp: effectPurchaseCard_def split: option.splits sum.splits prod.splits)
  define s2 where "s2 = payLoop pid payment GEM_COLORS s1"
  define s3 where "s3 = playerToBank pid Gold gold s2"
  define s4 where "s4 = s3\<lparr>players := updatePlayer pid
        (\<lambda>p. p\<lparr>purchasedCards := purchasedCards p @ [c],
               bonuses := (bonuses p)(bonus c := bonuses p (bonus c) + 1),
               prestigePoints := prestigePoints p + cardPoints c\<rparr>) (players s3)\<rparr>"
  have m: "m = (if \<not> fromReserved then refillMarketSlot s4 (tier c) else s4)"
    using assms pay take
    by (auto simp: effectPurchaseCard_def s2_def s3_def s4_def Let_def split: if_splits)
  have c1: "conserving s s1" using take by (rule takeCardToPurchase_conserving)
  obtain p0 where "getPlayerById s pid = Some p0" using calculatePayment_found[OF pay] by auto
  then obtain p1 where p1: "getPlayerById s1 pid = Some p1"
    using conserving_found[OF c1, of pid] by auto
  have c2: "conserving s1 s2" unfolding s2_def using p1 by (rule payLoop_conserving)
  obtain p2 where p2: "getPlayerById s2 pid = Some p2"
    using conserving_found[OF c2, of pid] p1 by auto
  have c3: "conserving s2 s3" unfolding s3_def using p2 by (rule conserving_playerToBank)
  have c4: "conserving s3 s4" unfolding s4_def by (rule conserving_players_upd) simp_all
  have c5: "conserving s4 m"
    unfolding m by (simp add: conserving_refl conserving_onlyCards refillMarketSlot_onlyCards)
  show ?thesis using c1 c2 c3 c4 c5 by (blast intro: conserving_trans)
qed

lemma discardLoop_conserving:
  "discardLoop pid entries s = Inr m \<Longrightarrow> conserving s m"
proof (induction entries arbitrary: s)
  case Nil
  then show ?case by (simp add: conserving_refl)
next
  case (Cons e entries)
  obtain g cnt where e: "e = (g, cnt)" by (cases e)
  show ?case
  proof (cases "\<exists>n. cnt = Some n \<and> n > 0")
    case True
    then obtain n where n: "cnt = Some n" "n > 0" by auto
    with Cons.prems e obtain p where p: "getPlayerById s pid = Some p"
      and rest: "discardLoop pid entries (playerToBank pid g n s) = Inr m"
      by (auto split: option.splits)
    show ?thesis
      using conserving_playerToBank[OF p] Cons.IH[OF rest] by (blast intro: conserving_trans)
  next
    case False
    then have "discardLoop pid entries s = Inr m"
      using Cons.prems e by (auto split: option.splits if_splits)
    then show ?thesis by (rule Cons.IH)
  qed
qed

lemma actionEffect_conserving:
  assumes "actionEffect s a = Some (Inr m)"
  shows "conserving s m \<or> (\<exists>m0. conserving s m0 \<and> m = m0\<lparr>pendingGemDiscard := None\<rparr>)"
proof (cases a)
  case (TAKE_THREE_GEMS pid gs)
  then show ?thesis using assms
    by (simp add: effectTakeThreeGems_def takeGemsLoop_conserving)
next
  case (TAKE_TWO_GEMS pid g)
  then show ?thesis using assms by (simp add: effectTakeTwoGems_conserving)
next
  case (RESERVE_CARD pid cidOpt t)
  then show ?thesis using assms by (simp add: effectReserveCard_conserving)
next
  case (PURCHASE_CARD pid cid)
  then show ?thesis using assms by (simp add: effectPurchaseCard_conserving)
next
  case (SELECT_NOBLE pid nid)
  then show ?thesis using assms by simp
next
  case (DISCARD_GEMS pid entries)
  then obtain m0 where "discardLoop pid entries s = Inr m0" "m = m0\<lparr>pendingGemDiscard := None\<rparr>"
    using assms by (auto simp: effectDiscardGems_def split: sum.splits)
  then show ?thesis using discardLoop_conserving by blast
next
  case (UNKNOWN_ACTION x)
  then show ?thesis using assms by simp
qed

lemma findIndex_find:
  "List.find P xs = Some x \<Longrightarrow>
   \<exists>i. findIndex P xs = Some i \<and> i < length xs \<and> xs ! i = x \<and> removeAt i xs = remove1 x xs"
proof (induction xs)
  case Nil
  then show ?case by simp
next
  case (Cons y ys)
  show ?case
  proof (cases "P y")
    case True
    then show ?thesis using Cons.prems by (simp add: removeAt_def)
  next
    case False
    then have "List.find P ys = Some x" using Cons.prems by simp
    from Cons.IH[OF this] obtain i where i: "findIndex P ys = Some i" "i < length ys"
      "ys ! i = x" "removeAt i ys = remove1 x ys" by auto
    have "P x" using \<open>List.find P ys = Some x\<close> by (auto dest: find_SomeD)
    then have "y \<noteq> x" using False by auto
    then show ?thesis using False i by (simp add: removeAt_def)
  qed
qed


lemma find_distinct_key:
  "distinct (map f xs) \<Longrightarrow> x \<in> set xs \<Longrightarrow> List.find (\<lambda>y. f y = f x) xs = Some x"
  by (induction xs) (auto simp: image_iff)

lemma checkGameEndTrigger_keeps:
  "players (checkGameEndTrigger s) = players s"
  "bank (checkGameEndTrigger s) = bank s"
  "nobles (checkGameEndTrigger s) = nobles s"
  "currentPlayerIndex (checkGameEndTrigger s) = currentPlayerIndex s"
  "round (checkGameEndTrigger s) = round s"
  "pendingNobleSelection (checkGameEndTrigger s) = pendingNobleSelection s"
  "pendingGemDiscard (checkGameEndTrigger s) = pendingGemDiscard s"
  by (simp_all add: checkGameEndTrigger_def split: option.splits)

lemma checkGameEndTrigger_phase:
  "isGameInProgress s \<Longrightarrow> isGameInProgress (checkGameEndTrigger s)"
  by (auto simp: checkGameEndTrigger_def isGameInProgress_def split: option.splits)

lemma advanceTurn_keeps:
  "players (advanceTurn s) = players s"
  "bank (advanceTurn s) = bank s"
  "nobles (advanceTurn s) = nobles s"
  "pendingNobleSelection (advanceTurn s) = pendingNobleSelection s"
  "pendingGemDiscard (advanceTurn s) = pendingGemDiscard s"
  by (simp_all add: advanceTurn_def checkGameEnd_def Let_def)

lemma checkGameEndAndAdvance_keeps:
  "players (checkGameEndAndAdvance s) = players s"
  "bank (checkGameEndAndAdvance s) = bank s"
  "nobles (checkGameEndAndAdvance s) = nobles s"
  "pendingNobleSelection (checkGameEndAndAdvance s) = pendingNobleSelection s"
  "pendingGemDiscard (checkGameEndAndAdvance s) = pendingGemDiscard s"
  by (simp_all add: checkGameEndAndAdvance_def advanceTurn_keeps checkGameEndTrigger_keeps)

lemma checkGameEndAndAdvance_index:
  "isGameInProgress s \<Longrightarrow>
   currentPlayerIndex (checkGameEndAndAdvance s)
     = (currentPlayerIndex s + 1) mod length (players s)"
  using checkGameEndTrigger_phase[of s]
  by (auto simp: checkGameEndAndAdvance_def advanceTurn_def checkGameEnd_def Let_def
      isGameInProgress_def checkGameEndTrigger_keeps)


lemma awardNoble_keeps:
  "bank (awardNoble pid i s) = bank s"
  "map gems (players (awardNoble pid i s)) = map gems (players s)"
  "map playerId (players (awardNoble pid i s)) = map playerId (players s)"
  "nobles (awardNoble pid i s) = removeAt i (nobles s)"
  "pendingNobleSelection (awardNoble pid i s) = pendingNobleSelection s"
  "pendingGemDiscard (awardNoble pid i s) = pendingGemDiscard s"
  "currentPlayerIndex (awardNoble pid i s) = currentPlayerIndex s"
  "round (awardNoble pid i s) = round s"
  "phase (awardNoble pid i s) = phase s"
  by (simp_all add: awardNoble_def Let_def map_updatePlayer_same)

lemma awardNoble_player:
  "getPlayerById s pid = Some p \<Longrightarrow>
   getPlayerById (awardNoble pid i s) pid
     = Some (p\<lparr>ownedNobles := ownedNobles p @ [nobles s ! i],
               prestigePoints := prestigePoints p + noblePoints (nobles s ! i)\<rparr>)"
  by (simp add: awardNoble_def Let_def getPlayerById_def find_updatePlayer)








section \<open>Accepted actions are applied\<close>














lemma applyActionUnsafe_via_effect:
  "actionEffect s a = Some r \<Longrightarrow>
   applyActionUnsafe s a =
     (case r of
        Inl e \<Rightarrow> Inl e
      | Inr m \<Rightarrow> if isMainAction a then finishTurn m (actionPlayerId a)
                 else checkNobleAndAdvance m (actionPlayerId a))"
  by (cases a)
     (auto simp: applyTakeThreeGems_def applyTakeTwoGems_def applyReserveCard_def
       applyPurchaseCard_def applyDiscardGems_def split: sum.splits)

lemma applyAction_valid:
  "validateAction s a = Inr Valid \<Longrightarrow> applyAction s a = applyActionUnsafe s a"
  by (simp add: applyAction_def)






section \<open>Token conservation\<close>


section \<open>Gem limit\<close>

lemma actionEffect_sameTurn:
  assumes "actionEffect s a = Some (Inr m)"
  shows "sameTurn s m"
  using actionEffect_conserving[OF assms]
  by (auto simp: conserving_def sameTurn_def)

text \<open>
  In every state, a main action (take gems, reserve, purchase) whose economic effect
  leaves the acting player with more than 10 gems (gold included) returns the state
  after the effect with \<open>pendingGemDiscard\<close> set to that player's id: the current
  player index and the round are unchanged, no noble is awarded (the pool and every
  player's nobles are unchanged), and \<open>pendingNobleSelection\<close> is what it was before
  the action.
\<close>

lemma finishTurn_over_limit_any_state:
  assumes "isMainAction a"
    and "actionEffect s a = Some (Inr m)"
    and "getPlayerById m (actionPlayerId a) = Some p"
    and "playerTotalGems p > MAX_GEMS"
  shows "\<exists>s'. applyActionUnsafe s a = Inr s'
           \<and> (validateAction s a = Inr Valid \<longrightarrow> applyAction s a = Inr s')
           \<and> pendingGemDiscard s' = Some (actionPlayerId a)
           \<and> currentPlayerIndex s' = currentPlayerIndex s
           \<and> round s' = round s
           \<and> nobles s' = nobles s
           \<and> map ownedNobles (players s') = map ownedNobles (players s)
           \<and> pendingNobleSelection s' = pendingNobleSelection s"
proof -
  have st: "sameTurn s m"
    using assms(2) by (rule actionEffect_sameTurn)
  have "applyActionUnsafe s a = Inr (m\<lparr>pendingGemDiscard := Some (actionPlayerId a)\<rparr>)"
    using applyActionUnsafe_via_effect[OF assms(2)] assms(1,3,4)
    by (simp add: finishTurn_def)
  then show ?thesis
    using st by (simp add: sameTurn_def applyAction_def)
qed

section \<open>Noble check\<close>

lemma awardNoble_inProgress:
  "isGameInProgress (awardNoble pid i s) = isGameInProgress s"
  by (simp add: isGameInProgress_def awardNoble_keeps)

lemma awardNoble_length: "length (players (awardNoble pid i s)) = length (players s)"
  by (simp add: awardNoble_def Let_def length_updatePlayer)

lemma getPlayerById_players:
  "players s' = players s \<Longrightarrow> getPlayerById s' pid = getPlayerById s pid"
  by (simp add: getPlayerById_def)

lemma sole_eligible_index:
  assumes "getPlayerById m pid = Some p"
    and "filter (meetsRequirements p) (nobles m) = [n]"
    and "distinct (map nobleId (nobles m))"
  shows "getEligibleNobles m pid = [nobleId n]
         \<and> (\<exists>i. findIndex (\<lambda>x. nobleId x = nobleId n) (nobles m) = Some i
                \<and> nobles m ! i = n \<and> removeAt i (nobles m) = remove1 n (nobles m))"
proof -
  have "n \<in> set (filter (meetsRequirements p) (nobles m))" using assms(2) by simp
  then have "n \<in> set (nobles m)" by simp
  then have "List.find (\<lambda>x. nobleId x = nobleId n) (nobles m) = Some n"
    using assms(3) by (rule find_distinct_key[rotated])
  from findIndex_find[OF this] show ?thesis
    using assms(1,2) by (auto simp: getEligibleNobles_def)
qed

text \<open>
  C6. Let \<open>m\<close> be the state after the economic effect of a main action or of a
  \<open>DISCARD_GEMS\<close>, with the acting player at or under 10 gems, the nobles of the pool
  having distinct ids and, as their type says, 3 prestige points each.
  If exactly one noble of the pool has all its requirements met by the player's bonuses,
  the returned state has that noble removed from the pool, appended to the player's
  nobles and 3 added to the player's prestige; no choice is offered (the selection flag
  is as it was and the turn has advanced). If more than one noble is eligible, the
  returned state is \<open>m\<close> with \<open>pendingNobleSelection\<close> set to the player's id, the
  current player index unchanged. If none is eligible, the turn proceeds: the returned
  state is \<open>m\<close> after the end-game check and the turn advance.
\<close>

theorem noble_check_after_action:
  assumes "actionEffect s a = Some (Inr m)"
    and "getPlayerById m (actionPlayerId a) = Some p"
    and "playerTotalGems p \<le> MAX_GEMS"
    and "distinct (map nobleId (nobles m))"
    and "list_all (\<lambda>n. noblePoints n = 3) (nobles m)"
  shows "(\<forall>n. filter (meetsRequirements p) (nobles m) = [n] \<longrightarrow>
            (\<exists>s'. applyActionUnsafe s a = Inr s'
                \<and> nobles s' = remove1 n (nobles m)
                \<and> getPlayerById s' (actionPlayerId a)
                    = Some (p\<lparr>ownedNobles := ownedNobles p @ [n],
                              prestigePoints := prestigePoints p + 3\<rparr>)
                \<and> pendingNobleSelection s' = pendingNobleSelection m
                \<and> (isGameInProgress m \<longrightarrow>
                      currentPlayerIndex s'
                        = (currentPlayerIndex m + 1) mod length (players m))))
       \<and> (length (filter (meetsRequirements p) (nobles m)) > 1 \<longrightarrow>
            applyActionUnsafe s a
              = Inr (m\<lparr>pendingNobleSelection := Some (actionPlayerId a)\<rparr>)
            \<and> currentPlayerIndex m = currentPlayerIndex s)
       \<and> (filter (meetsRequirements p) (nobles m) = [] \<longrightarrow>
            applyActionUnsafe s a = Inr (checkGameEndAndAdvance m))"
proof -
  let ?pid = "actionPlayerId a"
  let ?E = "filter (meetsRequirements p) (nobles m)"
  have app: "applyActionUnsafe s a = checkNobleAndAdvance m ?pid"
    using applyActionUnsafe_via_effect[OF assms(1)] assms(2,3)
    by (simp add: finishTurn_def)
  have elig: "getEligibleNobles m ?pid = map nobleId ?E"
    using assms(2) by (simp add: getEligibleNobles_def)
  have one: "\<exists>s'. applyActionUnsafe s a = Inr s'
                \<and> nobles s' = remove1 n (nobles m)
                \<and> getPlayerById s' ?pid
                    = Some (p\<lparr>ownedNobles := ownedNobles p @ [n],
                              prestigePoints := prestigePoints p + 3\<rparr>)
                \<and> pendingNobleSelection s' = pendingNobleSelection m
                \<and> (isGameInProgress m \<longrightarrow>
                      currentPlayerIndex s'
                        = (currentPlayerIndex m + 1) mod length (players m))"
    if E: "?E = [n]" for n
  proof -
    obtain i where i: "findIndex (\<lambda>x. nobleId x = nobleId n) (nobles m) = Some i"
      "nobles m ! i = n" "removeAt i (nobles m) = remove1 n (nobles m)"
      and el: "getEligibleNobles m ?pid = [nobleId n]"
      using sole_eligible_index[OF assms(2) E assms(4)] by auto
    have "n \<in> set ?E" using E by simp
    then have pts: "noblePoints n = 3" using assms(5) by (simp add: list_all_iff)
    let ?m' = "awardNoble ?pid i m"
    have res: "applyActionUnsafe s a = Inr (checkGameEndAndAdvance ?m')"
      using app el i(1) assms(2) by (simp add: checkNobleAndAdvance_def)
    have pl: "getPlayerById (checkGameEndAndAdvance ?m') ?pid
                = Some (p\<lparr>ownedNobles := ownedNobles p @ [n],
                          prestigePoints := prestigePoints p + 3\<rparr>)"
      using awardNoble_player[OF assms(2), of i] i(2) pts
      by (simp add: getPlayerById_def checkGameEndAndAdvance_keeps)
    have idx: "isGameInProgress m \<Longrightarrow>
                 currentPlayerIndex (checkGameEndAndAdvance ?m')
                   = (currentPlayerIndex m + 1) mod length (players m)"
      using checkGameEndAndAdvance_index[of ?m']
      by (simp add: awardNoble_inProgress awardNoble_keeps awardNoble_length)
    show ?thesis
      using res pl idx i(3)
      by (simp add: checkGameEndAndAdvance_keeps awardNoble_keeps)
  qed
  have many: "applyActionUnsafe s a = Inr (m\<lparr>pendingNobleSelection := Some ?pid\<rparr>)"
    if "length ?E > 1"
  proof -
    have "?E \<noteq> []" using that by auto
    then obtain x rest where xr: "?E = x # rest"
      by (auto simp: neq_Nil_conv)
    then have "rest \<noteq> []" using that by auto
    then obtain y zs where "rest = y # zs"
      by (auto simp: neq_Nil_conv)
    with xr have "?E = x # y # zs" by simp
    then show ?thesis using app elig by (simp add: checkNobleAndAdvance_def)
  qed
  have none: "applyActionUnsafe s a = Inr (checkGameEndAndAdvance m)" if "?E = []"
    using app elig that by (simp add: checkNobleAndAdvance_def)
  have same: "currentPlayerIndex m = currentPlayerIndex s"
    using actionEffect_sameTurn[OF assms(1)] by (simp add: sameTurn_def)
  show ?thesis using one many none same by blast
qed

section \<open>Noble selection outside the sub-flow\<close>

text \<open>
  C10. In a state with phase \<open>playing\<close> or \<open>final_round\<close>, a \<open>SELECT_NOBLE\<close> by
  any player of the state whose bonuses meet every requirement of the named noble of the
  pool is accepted by \<open>validateAction\<close>, whatever \<open>pendingNobleSelection\<close> holds and
  whoever's turn it is; applying it removes the noble from the pool, gives it and its
  prestige to that player, clears the flag and advances the current player index.
\<close>

theorem select_noble_unguarded:
  assumes "isGameInProgress s"
    and "getPlayerById s pid = Some p"
    and "List.find (\<lambda>n. nobleId n = nid) (nobles s) = Some n"
    and "meetsRequirements p n"
  shows "validateAction s (SELECT_NOBLE pid nid) = Inr Valid
         \<and> (\<exists>s'. applyAction s (SELECT_NOBLE pid nid) = Inr s'
               \<and> nobles s' = remove1 n (nobles s)
               \<and> getPlayerById s' pid
                   = Some (p\<lparr>ownedNobles := ownedNobles p @ [n],
                             prestigePoints := prestigePoints p + noblePoints n\<rparr>)
               \<and> currentPlayerIndex s' = (currentPlayerIndex s + 1) mod length (players s)
               \<and> pendingNobleSelection s' = None)"
proof -
  have valid: "validateAction s (SELECT_NOBLE pid nid) = Inr Valid"
    using assms
    by (simp add: validateSelectNoble_def meetsRequirements_def list_ex_iff list_all_iff)
  obtain i where i: "findIndex (\<lambda>x. nobleId x = nid) (nobles s) = Some i"
    "nobles s ! i = n" "removeAt i (nobles s) = remove1 n (nobles s)"
    using findIndex_find[OF assms(3)] by auto
  let ?m = "(awardNoble pid i s)\<lparr>pendingNobleSelection := None\<rparr>"
  have app: "applyAction s (SELECT_NOBLE pid nid) = Inr (checkGameEndAndAdvance ?m)"
    using applyAction_valid[OF valid] i(1) assms(2) by (simp add: applySelectNoble_def)
  have prog: "isGameInProgress ?m"
    using assms(1) by (simp add: isGameInProgress_def awardNoble_keeps)
  have pl: "getPlayerById (checkGameEndAndAdvance ?m) pid
              = Some (p\<lparr>ownedNobles := ownedNobles p @ [n],
                        prestigePoints := prestigePoints p + noblePoints n\<rparr>)"
    using awardNoble_player[OF assms(2), of i] i(2)
    by (simp add: getPlayerById_def checkGameEndAndAdvance_keeps)
  have idx: "currentPlayerIndex (checkGameEndAndAdvance ?m)
               = (currentPlayerIndex s + 1) mod length (players s)"
    using checkGameEndAndAdvance_index[OF prog]
    by (simp add: awardNoble_keeps awardNoble_length)
  show ?thesis
    using valid app pl idx i(3)
    by (simp add: checkGameEndAndAdvance_keeps awardNoble_keeps)
qed

section \<open>The example positions, run\<close>

text \<open>
  The engine evaluated on the example positions. Each run is one evaluation; the facts
  about the named result states are read off it.
\<close>

lemma ex_chain_run:
  "validateAction exRich exBuy = Inr Valid
   \<and> (case applyAction exRich exBuy of
         Inl _ \<Rightarrow> False
       | Inr s \<Rightarrow>
           pendingNobleSelection s = Some ''p1'' \<and> pendingGemDiscard s = None
           \<and> validateAction s exTake = Inr Valid
           \<and> (case actionEffect s exTake of
                 Some (Inr m) \<Rightarrow> getTotalGems m ''p1'' = 12
               | _ \<Rightarrow> False)
           \<and> (case applyAction s exTake of
                 Inl _ \<Rightarrow> False
               | Inr s2 \<Rightarrow>
                   pendingNobleSelection s2 = Some ''p1''
                   \<and> pendingGemDiscard s2 = Some ''p1''
                   \<and> getTotalGems s2 ''p1'' = 12))"
  by code_simp

lemma ex_over_run:
  "validateAction exRich exTake = Inr Valid
   \<and> (case actionEffect exRich exTake of
         Some (Inr m) \<Rightarrow>
           (case getPlayerById m ''p1'' of
              Some p \<Rightarrow> playerTotalGems p = 13
            | None \<Rightarrow> False)
       | _ \<Rightarrow> False)
   \<and> (case applyAction exRich exTake of
         Inl _ \<Rightarrow> False
       | Inr s \<Rightarrow>
           pendingGemDiscard s = Some ''p1''
           \<and> getTotalGems s ''p1'' = 13
           \<and> validateAction s (TAKE_THREE_GEMS ''p1'' [Colored Ruby]) = Inr Valid)"
  by code_simp

lemma ex_buy_run:
  "(case actionEffect exState exBuy of
      Some (Inr m) \<Rightarrow>
        (case getPlayerById m ''p1'' of
           Some p \<Rightarrow> playerTotalGems p = 1 \<and> meetsRequirements p exNoble1
                     \<and> prestigePoints p = 0
         | None \<Rightarrow> False)
    | _ \<Rightarrow> False)"
  by code_simp

lemma sum_case_Inr:
  "(case x of Inl _ \<Rightarrow> False | Inr s \<Rightarrow> P s) \<Longrightarrow> x = Inr (projr x) \<and> P (projr x)"
  by (cases x) auto

lemma effect_case_Inr:
  "(case x of Some (Inr m) \<Rightarrow> P m | _ \<Rightarrow> False) \<Longrightarrow>
   x = Some (Inr (projr (the x))) \<and> P (projr (the x))"
  by (cases x) (auto split: sum.splits)

lemma player_case_Some:
  "(case x of Some p \<Rightarrow> P p | None \<Rightarrow> False) \<Longrightarrow> x = Some (the x) \<and> P (the x)"
  by (cases x) auto

lemma exAfterPurchase_facts:
  "validateAction exRich exBuy = Inr Valid"
  "applyAction exRich exBuy = Inr exAfterPurchase"
  "pendingNobleSelection exAfterPurchase = Some ''p1''"
  "pendingGemDiscard exAfterPurchase = None"
  "validateAction exAfterPurchase exTake = Inr Valid"
  "actionEffect exAfterPurchase exTake = Some (Inr exTakeEffect2)"
  "getTotalGems exTakeEffect2 ''p1'' = 12"
  "applyAction exAfterPurchase exTake = Inr exAfterTake"
  "pendingNobleSelection exAfterTake = Some ''p1''"
  "pendingGemDiscard exAfterTake = Some ''p1''"
  "getTotalGems exAfterTake ''p1'' = 12"
proof -
  note run = ex_chain_run
  show "validateAction exRich exBuy = Inr Valid" using run by simp
  from run have a: "(case applyAction exRich exBuy of
         Inl _ \<Rightarrow> False
       | Inr s \<Rightarrow>
           pendingNobleSelection s = Some ''p1'' \<and> pendingGemDiscard s = None
           \<and> validateAction s exTake = Inr Valid
           \<and> (case actionEffect s exTake of
                 Some (Inr m) \<Rightarrow> getTotalGems m ''p1'' = 12
               | _ \<Rightarrow> False)
           \<and> (case applyAction s exTake of
                 Inl _ \<Rightarrow> False
               | Inr s2 \<Rightarrow>
                   pendingNobleSelection s2 = Some ''p1''
                   \<and> pendingGemDiscard s2 = Some ''p1''
                   \<and> getTotalGems s2 ''p1'' = 12))" by simp
  note b = sum_case_Inr[OF a, folded exAfterPurchase_def]
  show "applyAction exRich exBuy = Inr exAfterPurchase" using b by simp
  show "pendingNobleSelection exAfterPurchase = Some ''p1''" using b by simp
  show "pendingGemDiscard exAfterPurchase = None" using b by simp
  show "validateAction exAfterPurchase exTake = Inr Valid" using b by simp
  from b have c: "(case actionEffect exAfterPurchase exTake of
                 Some (Inr m) \<Rightarrow> getTotalGems m ''p1'' = 12
               | _ \<Rightarrow> False)" by simp
  note d = effect_case_Inr[OF c, folded exTakeEffect2_def]
  show "actionEffect exAfterPurchase exTake = Some (Inr exTakeEffect2)" using d by simp
  show "getTotalGems exTakeEffect2 ''p1'' = 12" using d by simp
  from b have e: "(case applyAction exAfterPurchase exTake of
                 Inl _ \<Rightarrow> False
               | Inr s2 \<Rightarrow>
                   pendingNobleSelection s2 = Some ''p1''
                   \<and> pendingGemDiscard s2 = Some ''p1''
                   \<and> getTotalGems s2 ''p1'' = 12)" by simp
  note f = sum_case_Inr[OF e, folded exAfterTake_def]
  show "applyAction exAfterPurchase exTake = Inr exAfterTake" using f by simp
  show "pendingNobleSelection exAfterTake = Some ''p1''" using f by simp
  show "pendingGemDiscard exAfterTake = Some ''p1''" using f by simp
  show "getTotalGems exAfterTake ''p1'' = 12" using f by simp
qed

lemma exOver_facts:
  "validateAction exRich exTake = Inr Valid"
  "actionEffect exRich exTake = Some (Inr exTakeEffect)"
  "getPlayerById exTakeEffect ''p1'' = Some exTakePlayer"
  "playerTotalGems exTakePlayer = 13"
  "applyAction exRich exTake = Inr exOver"
  "pendingGemDiscard exOver = Some ''p1''"
  "getTotalGems exOver ''p1'' = 13"
  "validateAction exOver (TAKE_THREE_GEMS ''p1'' [Colored Ruby]) = Inr Valid"
proof -
  note run = ex_over_run
  show "validateAction exRich exTake = Inr Valid" using run by simp
  from run have a: "(case actionEffect exRich exTake of
         Some (Inr m) \<Rightarrow>
           (case getPlayerById m ''p1'' of
              Some p \<Rightarrow> playerTotalGems p = 13
            | None \<Rightarrow> False)
       | _ \<Rightarrow> False)" by simp
  note b = effect_case_Inr[OF a, folded exTakeEffect_def]
  show "actionEffect exRich exTake = Some (Inr exTakeEffect)" using b by simp
  from b have c: "(case getPlayerById exTakeEffect ''p1'' of
              Some p \<Rightarrow> playerTotalGems p = 13
            | None \<Rightarrow> False)" by simp
  note d = player_case_Some[OF c, folded exTakePlayer_def]
  show "getPlayerById exTakeEffect ''p1'' = Some exTakePlayer" using d by simp
  show "playerTotalGems exTakePlayer = 13" using d by simp
  from run have e: "(case applyAction exRich exTake of
         Inl _ \<Rightarrow> False
       | Inr s \<Rightarrow>
           pendingGemDiscard s = Some ''p1''
           \<and> getTotalGems s ''p1'' = 13
           \<and> validateAction s (TAKE_THREE_GEMS ''p1'' [Colored Ruby]) = Inr Valid)" by simp
  note f = sum_case_Inr[OF e, folded exOver_def]
  show "applyAction exRich exTake = Inr exOver" using f by simp
  show "pendingGemDiscard exOver = Some ''p1''" using f by simp
  show "getTotalGems exOver ''p1'' = 13" using f by simp
  show "validateAction exOver (TAKE_THREE_GEMS ''p1'' [Colored Ruby]) = Inr Valid"
    using f by simp
qed

lemma exBuyEffect_facts:
  "actionEffect exState exBuy = Some (Inr exBuyEffect)"
  "getPlayerById exBuyEffect ''p1'' = Some exBuyPlayer"
  "playerTotalGems exBuyPlayer = 1"
  "meetsRequirements exBuyPlayer exNoble1"
  "prestigePoints exBuyPlayer = 0"
proof -
  note b = effect_case_Inr[OF ex_buy_run, folded exBuyEffect_def]
  show "actionEffect exState exBuy = Some (Inr exBuyEffect)" using b by simp
  from b have c: "(case getPlayerById exBuyEffect ''p1'' of
           Some p \<Rightarrow> playerTotalGems p = 1 \<and> meetsRequirements p exNoble1
                     \<and> prestigePoints p = 0
         | None \<Rightarrow> False)" by simp
  note d = player_case_Some[OF c, folded exBuyPlayer_def]
  show "getPlayerById exBuyEffect ''p1'' = Some exBuyPlayer" using d by simp
  show "playerTotalGems exBuyPlayer = 1" using d by simp
  show "meetsRequirements exBuyPlayer exNoble1" using d by simp
  show "prestigePoints exBuyPlayer = 0" using d by simp
qed

lemma exBuyEffect_frame:
  "nobles exBuyEffect = [exNoble1]"
  "pendingNobleSelection exBuyEffect = None"
  "currentPlayerIndex exBuyEffect = 0"
  "length (players exBuyEffect) = 2"
  "isGameInProgress exBuyEffect"
proof -
  note st = actionEffect_sameTurn[OF exBuyEffect_facts(1), unfolded sameTurn_def]
  show "nobles exBuyEffect = [exNoble1]" using st by (simp add: exState_def)
  show "pendingNobleSelection exBuyEffect = None" using st by (simp add: exState_def)
  show "currentPlayerIndex exBuyEffect = 0" using st by (simp add: exState_def)
  have "length (map playerId (players exBuyEffect)) = length (map playerId (players exState))"
    using st by simp
  then show "length (players exBuyEffect) = 2" by (simp add: exState_def)
  show "isGameInProgress exBuyEffect" using st by (simp add: isGameInProgress_def exState_def)
qed

section \<open>The theorems at the example positions\<close>


text \<open>
  The gem limit when Alice takes three gems in \<open>exRich\<close>, where no flag is set: the
  returned state asks for the discard and for nothing else.
\<close>

lemma finishTurn_over_limit_at_exRich:
  "isMainAction exTake
   \<and> actionEffect exRich exTake = Some (Inr exTakeEffect)
   \<and> getPlayerById exTakeEffect (actionPlayerId exTake) = Some exTakePlayer
   \<and> playerTotalGems exTakePlayer > MAX_GEMS
   \<and> pendingNobleSelection exRich = None
   \<and> applyAction exRich exTake = Inr exOver
   \<and> pendingGemDiscard exOver = Some ''p1''
   \<and> currentPlayerIndex exOver = currentPlayerIndex exRich
   \<and> round exOver = round exRich
   \<and> nobles exOver = nobles exRich
   \<and> map ownedNobles (players exOver) = map ownedNobles (players exRich)
   \<and> pendingNobleSelection exOver = None"
proof -
  have h1: "isMainAction exTake" by (simp add: exTake_def)
  have h3: "getPlayerById exTakeEffect (actionPlayerId exTake) = Some exTakePlayer"
    using exOver_facts(3) by (simp add: exTake_def)
  have h4: "playerTotalGems exTakePlayer > MAX_GEMS"
    using exOver_facts(4) by (simp add: MAX_GEMS_def)
  have h5: "pendingNobleSelection exRich = None" by (simp add: exRich_def exState_def)
  show ?thesis
    using finishTurn_over_limit_any_state [OF h1 exOver_facts(2) h3 h4]
      h1 exOver_facts(1,2,5) h3 h4 h5
    by (auto simp: exTake_def)
qed

text \<open>
  C5. The claim asks that after a main action that leaves the acting player above 10
  gems the returned state has \<open>pendingGemDiscard\<close> set and \<open>pendingNobleSelection\<close> not
  set. The engine breaks it through the validator's missing pending-flag check (the
  defect of C2): from \<open>exRich\<close>, where no flag is set, Alice's accepted purchase makes
  her eligible for two nobles and sets \<open>pendingNobleSelection\<close>; her next main action
  is accepted although the selection is pending, leaves her with 12 gems, and the
  returned state has \<open>pendingGemDiscard\<close> set while \<open>pendingNobleSelection\<close> is still
  set.
\<close>

theorem over_limit_during_noble_selection:
  "pendingGemDiscard exRich = None \<and> pendingNobleSelection exRich = None
   \<and> validateAction exRich exBuy = Inr Valid
   \<and> applyAction exRich exBuy = Inr exAfterPurchase
   \<and> pendingNobleSelection exAfterPurchase = Some ''p1''
   \<and> isMainAction exTake
   \<and> validateAction exAfterPurchase exTake = Inr Valid
   \<and> actionEffect exAfterPurchase exTake = Some (Inr exTakeEffect2)
   \<and> MAX_GEMS < getTotalGems exTakeEffect2 (actionPlayerId exTake)
   \<and> applyAction exAfterPurchase exTake = Inr exAfterTake
   \<and> pendingGemDiscard exAfterTake = Some (actionPlayerId exTake)
   \<and> pendingNobleSelection exAfterTake = Some ''p1''"
  using exAfterPurchase_facts
  by (simp add: exTake_def exRich_def exState_def MAX_GEMS_def)

text \<open>
  C2. The claim asks \<open>validateAction\<close> to reject a main action of the player that a
  pending flag names. The validator never reads the flags: after Alice's take leaves her
  with 13 gems and sets \<open>pendingGemDiscard\<close>, her second \<open>TAKE_THREE_GEMS\<close> is
  accepted, and so is a take while \<open>pendingNobleSelection\<close> names her.
\<close>

theorem pending_flags_not_checked:
  "validateAction exRich exTake = Inr Valid
   \<and> applyAction exRich exTake = Inr exOver
   \<and> MAX_GEMS < getTotalGems exOver ''p1''
   \<and> pendingGemDiscard exOver = Some ''p1''
   \<and> validateAction exOver (TAKE_THREE_GEMS ''p1'' [Colored Ruby]) = Inr Valid
   \<and> pendingNobleSelection exAfterPurchase = Some ''p1''
   \<and> validateAction exAfterPurchase exTake = Inr Valid"
  using exOver_facts exAfterPurchase_facts
  by (simp add: MAX_GEMS_def)

text \<open>The noble check (C6) after Alice's purchase in \<open>exState\<close>: one noble, awarded.\<close>

theorem noble_check_after_action_witness:
  "actionEffect exState exBuy = Some (Inr exBuyEffect)
   \<and> getPlayerById exBuyEffect (actionPlayerId exBuy) = Some exBuyPlayer
   \<and> playerTotalGems exBuyPlayer \<le> MAX_GEMS
   \<and> distinct (map nobleId (nobles exBuyEffect))
   \<and> list_all (\<lambda>n. noblePoints n = 3) (nobles exBuyEffect)
   \<and> filter (meetsRequirements exBuyPlayer) (nobles exBuyEffect) = [exNoble1]
   \<and> (\<exists>s'. applyActionUnsafe exState exBuy = Inr s'
          \<and> nobles s' = []
          \<and> getPlayerById s' ''p1''
              = Some (exBuyPlayer\<lparr>ownedNobles := ownedNobles exBuyPlayer @ [exNoble1],
                                  prestigePoints := 3\<rparr>)
          \<and> pendingNobleSelection s' = None
          \<and> currentPlayerIndex s' = 1)"
proof -
  have h2: "getPlayerById exBuyEffect (actionPlayerId exBuy) = Some exBuyPlayer"
    using exBuyEffect_facts(2) by (simp add: exBuy_def)
  have h3: "playerTotalGems exBuyPlayer \<le> MAX_GEMS"
    using exBuyEffect_facts(3) by (simp add: MAX_GEMS_def)
  have h4: "distinct (map nobleId (nobles exBuyEffect))"
    by (simp add: exBuyEffect_frame)
  have h5: "list_all (\<lambda>n. noblePoints n = 3) (nobles exBuyEffect)"
    by (simp add: exBuyEffect_frame exNoble1_def)
  have one: "filter (meetsRequirements exBuyPlayer) (nobles exBuyEffect) = [exNoble1]"
    using exBuyEffect_facts(4) by (simp add: exBuyEffect_frame)
  from noble_check_after_action [OF exBuyEffect_facts(1) h2 h3 h4 h5] one
  have "\<exists>s'. applyActionUnsafe exState exBuy = Inr s'
          \<and> nobles s' = remove1 exNoble1 (nobles exBuyEffect)
          \<and> getPlayerById s' (actionPlayerId exBuy)
              = Some (exBuyPlayer\<lparr>ownedNobles := ownedNobles exBuyPlayer @ [exNoble1],
                                  prestigePoints := prestigePoints exBuyPlayer + 3\<rparr>)
          \<and> pendingNobleSelection s' = pendingNobleSelection exBuyEffect
          \<and> (isGameInProgress exBuyEffect \<longrightarrow>
                currentPlayerIndex s'
                  = (currentPlayerIndex exBuyEffect + 1) mod length (players exBuyEffect))"
    by blast
  then show ?thesis
    using exBuyEffect_facts(1,5) h2 h3 h4 h5 one
    by (simp add: exBuyEffect_frame exBuy_def)
qed

lemma exCrowd_hyps:
  "isGameInProgress exCrowd"
  "getPlayerById exCrowd ''p2'' = Some exBob3"
  "List.find (\<lambda>n. nobleId n = ''n2'') (nobles exCrowd) = Some exNoble2"
  "meetsRequirements exBob3 exNoble2"
  by (simp_all add: isGameInProgress_def getPlayerById_def meetsRequirements_def
      GEM_COLORS_def exCrowd_def exBob3_def ex_defs)

text \<open>
  C10 in \<open>exCrowd\<close>: it is Alice's turn and the selection is pending for Alice, yet
  Bob's \<open>SELECT_NOBLE\<close> is accepted and applied.
\<close>

theorem select_noble_unguarded_witness:
  "isGameInProgress exCrowd
   \<and> getPlayerById exCrowd ''p2'' = Some exBob3
   \<and> List.find (\<lambda>n. nobleId n = ''n2'') (nobles exCrowd) = Some exNoble2
   \<and> meetsRequirements exBob3 exNoble2
   \<and> pendingNobleSelection exCrowd = Some ''p1''
   \<and> isPlayersTurn exCrowd ''p2'' = Inr False
   \<and> validateAction exCrowd (SELECT_NOBLE ''p2'' ''n2'') = Inr Valid
   \<and> (\<exists>s'. applyAction exCrowd (SELECT_NOBLE ''p2'' ''n2'') = Inr s'
          \<and> nobles s' = [exNoble1]
          \<and> getPlayerById s' ''p2''
              = Some (exBob3\<lparr>ownedNobles := [exNoble2], prestigePoints := 3\<rparr>)
          \<and> currentPlayerIndex s' = 1
          \<and> pendingNobleSelection s' = None)"
proof -
  have a: "pendingNobleSelection exCrowd = Some ''p1''"
    "isPlayersTurn exCrowd ''p2'' = Inr False"
    by (simp_all add: isPlayersTurn_def getCurrentPlayer_def exCrowd_def ex_defs)
  have b: "nobles exCrowd = [exNoble1, exNoble2]" "exNoble2 \<noteq> exNoble1"
    "noblePoints exNoble2 = 3" "ownedNobles exBob3 = []" "prestigePoints exBob3 = 0"
    "currentPlayerIndex exCrowd = 0" "length (players exCrowd) = 2"
    by (simp_all add: exCrowd_def exBob3_def ex_defs)
  show ?thesis
    using select_noble_unguarded [OF exCrowd_hyps] exCrowd_hyps a b
    by simp
qed

end
